theory Spec2Isabelle
  imports Main
begin

section \<open>Strings\<close>

text \<open>
  A JavaScript string is a sequence of UTF-16 code units. The embedding covers the strings
  whose code units are below 256 (ASCII and Latin-1): a code unit is a \<open>char\<close>, a string
  a \<open>char list\<close>, and \<open>length\<close> is the source's \<open>.length\<close>. The rupee and euro
  signs of \<open>CURRENCY_PATTERN\<close> lie outside this range and no modelled text contains them.
\<close>

definition asciiLower :: string where
  "asciiLower = ''abcdefghijklmnopqrstuvwxyz''"

definition asciiUpper :: string where
  "asciiUpper = ''ABCDEFGHIJKLMNOPQRSTUVWXYZ''"

definition latinLower :: string where
  "latinLower =
    [CHR 0xE0, CHR 0xE1, CHR 0xE2, CHR 0xE3, CHR 0xE4, CHR 0xE5, CHR 0xE6, CHR 0xE7,
     CHR 0xE8, CHR 0xE9, CHR 0xEA, CHR 0xEB, CHR 0xEC, CHR 0xED, CHR 0xEE, CHR 0xEF,
     CHR 0xF0, CHR 0xF1, CHR 0xF2, CHR 0xF3, CHR 0xF4, CHR 0xF5, CHR 0xF6,
     CHR 0xF8, CHR 0xF9, CHR 0xFA, CHR 0xFB, CHR 0xFC, CHR 0xFD, CHR 0xFE]"

definition latinUpper :: string where
  "latinUpper =
    [CHR 0xC0, CHR 0xC1, CHR 0xC2, CHR 0xC3, CHR 0xC4, CHR 0xC5, CHR 0xC6, CHR 0xC7,
     CHR 0xC8, CHR 0xC9, CHR 0xCA, CHR 0xCB, CHR 0xCC, CHR 0xCD, CHR 0xCE, CHR 0xCF,
     CHR 0xD0, CHR 0xD1, CHR 0xD2, CHR 0xD3, CHR 0xD4, CHR 0xD5, CHR 0xD6,
     CHR 0xD8, CHR 0xD9, CHR 0xDA, CHR 0xDB, CHR 0xDC, CHR 0xDD, CHR 0xDE]"

text \<open>
  \<open>canon\<close> is the canonicalisation a regular expression with the \<open>i\<close> flag applies to
  one code unit: its upper-case form when that is a single code unit. Sharp s (its upper
  case is two letters) and the two letters whose upper case leaves the modelled range
  (micro sign, y with diaeresis) stay as they are; no pattern of the program contains them.
\<close>

definition canon :: "char \<Rightarrow> char" where
  "canon c = (case map_of (zip (asciiLower @ latinLower) (asciiUpper @ latinUpper)) c of
                Some u \<Rightarrow> u | None \<Rightarrow> c)"

text \<open>\<open>String.prototype.toUpperCase\<close>: as \<open>canon\<close>, and sharp s becomes \<open>SS\<close>.\<close>

definition toUpperCase :: "string \<Rightarrow> string" where
  "toUpperCase s = concat (map (\<lambda>c. if c = CHR 0xDF then ''SS'' else [canon c]) s)"

definition toLowerCase :: "string \<Rightarrow> string" where
  "toLowerCase s =
     map (\<lambda>c. case map_of (zip (asciiUpper @ latinUpper) (asciiLower @ latinLower)) c of
                 Some l \<Rightarrow> l | None \<Rightarrow> c) s"

definition isDigit :: "char \<Rightarrow> bool" where
  "isDigit c = (c \<in> set ''0123456789'')"

definition isUpperAZ :: "char \<Rightarrow> bool" where
  "isUpperAZ c = (c \<in> set asciiUpper)"

text \<open>The word characters of \<open>\w\<close> and \<open>\b\<close>: ASCII letters, digits and underscore.\<close>

definition isWordChar :: "char \<Rightarrow> bool" where
  "isWordChar c = (c \<in> set asciiUpper \<or> c \<in> set asciiLower \<or> isDigit c \<or> c = CHR ''_'')"

text \<open>White space of \<open>\s\<close> and of \<open>trim\<close> below 256: tab, LF, VT, FF, CR, space, NBSP.\<close>

definition isSpace :: "char \<Rightarrow> bool" where
  "isSpace c = (c \<in> set [CHR 0x09, CHR 0x0A, CHR 0x0B, CHR 0x0C, CHR 0x0D, CHR 0x20, CHR 0xA0])"

definition trim :: "string \<Rightarrow> string" where
  "trim s = rev (dropWhile isSpace (rev (dropWhile isSpace s)))"

fun startsWith :: "string \<Rightarrow> string \<Rightarrow> bool" where
  "startsWith s [] = True"
| "startsWith [] (p # ps) = False"
| "startsWith (c # cs) (p # ps) = (c = p \<and> startsWith cs ps)"

text \<open>\<open>s.includes(p)\<close>\<close>

fun includes' :: "string \<Rightarrow> string \<Rightarrow> bool" where
  "includes' [] p = (p = [])"
| "includes' (c # cs) p = (startsWith (c # cs) p \<or> includes' cs p)"

text \<open>\<open>s.split(',')\<close>: the pieces between commas; always at least one piece.\<close>

fun split_comma :: "string \<Rightarrow> string list" where
  "split_comma [] = [[]]"
| "split_comma (c # cs) =
     (if c = CHR '','' then [] # split_comma cs
      else (case split_comma cs of
              [] \<Rightarrow> [[c]]
            | p # ps \<Rightarrow> (c # p) # ps))"

definition digit_char :: "nat \<Rightarrow> char" where
  "digit_char d = ''0123456789'' ! (d mod 10)"

text \<open>Decimal notation of a natural number, as \<open>toString\<close> and template literals print it.\<close>

function string_of_nat :: "nat \<Rightarrow> string" where
  "string_of_nat n =
     (if n < 10 then [digit_char n] else string_of_nat (n div 10) @ [digit_char n])"
  by pat_completeness auto
termination
  by (relation "measure id") auto

declare string_of_nat.simps [simp del]

section \<open>The cell grid of the codec\<close>

text \<open>
  The workbook codec (the \<open>xlsx\<close> package) is outside the repository. The analyzer uses
  its decoded objects and three address helpers; the helpers are modelled here.
\<close>

text \<open>
  Modelled from the spec: \<open>XLSX.utils.encode_col\<close> of the external codec, the
  column-index to column-label conversion (0 to A, 25 to Z, 26 to AA, ...).
\<close>

definition col_letter :: "nat \<Rightarrow> char" where
  "col_letter d = asciiUpper ! (d mod 26)"

function encode_col :: "nat \<Rightarrow> string" where
  "encode_col n =
     (if n < 26 then [col_letter n] else encode_col (n div 26 - 1) @ [col_letter n])"
  by pat_completeness auto
termination
  by (relation "measure id") auto

declare encode_col.simps [simp del]

text \<open>
  Modelled from the spec: \<open>XLSX.utils.encode_cell\<close> of the external codec, the
  A1-style address of a zero-based (row, column) pair.
\<close>

definition encode_cell :: "nat \<Rightarrow> nat \<Rightarrow> string" where
  "encode_cell r c = encode_col c @ string_of_nat (r + 1)"

text \<open>
  The raw value \<open>cell.v\<close>: a number, a string or a boolean. The program reads a number
  only through \<open>toString\<close> and through its truthiness, so a number is represented by
  the text \<open>toString\<close> gives for it (\<open>4\<close>, \<open>-1.5\<close>, \<open>1e+21\<close>, \<open>NaN\<close>); the falsy
  numbers are the zeros, which print \<open>0\<close>, and \<open>NaN\<close>.
\<close>

datatype cellval = VNum string | VStr string | VBool bool

text \<open>
  A cell object of the codec: raw value \<open>v\<close>, formula text \<open>f\<close> (without the leading
  equals sign) and type tag \<open>t\<close> (\<open>e\<close> is the native error tag). \<open>None\<close> is an absent
  property.
\<close>

record cell =
  cell_v :: "cellval option"
  cell_f :: "string option"
  cell_t :: string

record range =
  s_r :: nat
  s_c :: nat
  e_r :: nat
  e_c :: nat

text \<open>
  A worksheet object: the cells keyed by address, the bounding range \<open>!ref\<close> (already
  decoded) and the merge ranges \<open>!merges\<close>. Only own properties are modelled.
\<close>

record worksheet =
  cells :: "string \<rightharpoonup> cell"
  ref :: "range option"
  merges :: "range list option"

record workbook =
  SheetNames :: "string list"
  Sheets :: "string \<rightharpoonup> worksheet"

text \<open>\<open>XLSX.utils.decode_range(worksheet['!ref'] || 'A1')\<close>.\<close>

definition sheet_range :: "worksheet \<Rightarrow> range" where
  "sheet_range ws = (case ref ws of
                       Some r \<Rightarrow> r
                     | None \<Rightarrow> \<lparr>s_r = 0, s_c = 0, e_r = 0, e_c = 0\<rparr>)"

text \<open>\<open>cell.v?.toString() || ''\<close>\<close>

definition valueString :: "cell \<Rightarrow> string" where
  "valueString c = (case cell_v c of
                      None \<Rightarrow> []
                    | Some (VNum n) \<Rightarrow> n
                    | Some (VStr s) \<Rightarrow> s
                    | Some (VBool b) \<Rightarrow> (if b then ''true'' else ''false''))"

text \<open>\<open>cell.f || ''\<close>\<close>

definition formulaString :: "cell \<Rightarrow> string" where
  "formulaString c = (case cell_f c of None \<Rightarrow> [] | Some s \<Rightarrow> s)"

text \<open>Truthiness of \<open>cell.v\<close>: absent, 0, the empty string and false are falsy.\<close>

definition truthy_v :: "cell \<Rightarrow> bool" where
  "truthy_v c = (case cell_v c of
                   None \<Rightarrow> False
                 | Some (VNum n) \<Rightarrow> n \<noteq> ''0'' \<and> n \<noteq> ''NaN''
                 | Some (VStr s) \<Rightarrow> s \<noteq> []
                 | Some (VBool b) \<Rightarrow> b)"

text \<open>\<open>cell && cell.v\<close> and \<open>cell && cell.f\<close> for the cell at an address.\<close>

definition hasValue :: "worksheet \<Rightarrow> nat \<Rightarrow> nat \<Rightarrow> bool" where
  "hasValue ws r c = (case cells ws (encode_cell r c) of None \<Rightarrow> False | Some x \<Rightarrow> truthy_v x)"

section \<open>Regular expressions of the analyzer\<close>

text \<open>
  Every regular expression of the source is modelled by a matcher of its own. The
  module-level expressions carrying the \<open>g\<close> flag keep a \<open>lastIndex\<close> between calls of
  \<open>test\<close>: a successful \<open>test\<close> stores the end of the match, a failed one stores 0, and
  the next \<open>test\<close> starts searching at the stored index. These indices are the only state
  of the module and are passed explicitly.
\<close>

record rxstate =
  errIdx :: "string \<Rightarrow> nat"
  vlookupIdx :: nat
  hlookupIdx :: nat

text \<open>The state of a freshly loaded module: every \<open>lastIndex\<close> is 0.\<close>

definition rx0 :: rxstate where
  "rx0 = \<lparr>errIdx = (\<lambda>_. 0), vlookupIdx = 0, hlookupIdx = 0\<rparr>"

text \<open>A literal matches at the head of the text, case-insensitively.\<close>

fun lit_at :: "string \<Rightarrow> string \<Rightarrow> bool" where
  "lit_at [] s = True"
| "lit_at (p # ps) [] = False"
| "lit_at (p # ps) (c # cs) = (canon p = canon c \<and> lit_at ps cs)"

text \<open>The first alternative (in the order written) that matches at the head; its length.\<close>

fun alt_at :: "string list \<Rightarrow> string \<Rightarrow> nat option" where
  "alt_at [] s = None"
| "alt_at (a # as) s = (if lit_at a s then Some (length a) else alt_at as s)"

text \<open>
  The leftmost match in the text \<open>s\<close>, which starts at index \<open>pos\<close> of the whole string:
  the index where the match ends.
\<close>

fun search_alts :: "string list \<Rightarrow> string \<Rightarrow> nat \<Rightarrow> nat option" where
  "search_alts alts [] pos = (case alt_at alts [] of Some n \<Rightarrow> Some (pos + n) | None \<Rightarrow> None)"
| "search_alts alts (c # cs) pos =
     (case alt_at alts (c # cs) of
        Some n \<Rightarrow> Some (pos + n)
      | None \<Rightarrow> search_alts alts cs (Suc pos))"

text \<open>
  \<open>rx.test(s)\<close> for an alternation of literals with flags \<open>gi\<close>, from \<open>lastIndex = li\<close>:
  the result and the new \<open>lastIndex\<close>.
\<close>

definition test_g :: "string list \<Rightarrow> string \<Rightarrow> nat \<Rightarrow> bool \<times> nat" where
  "test_g alts s li =
     (if li > length s then (False, 0)
      else (case search_alts alts (drop li s) li of
              Some e \<Rightarrow> (True, e)
            | None \<Rightarrow> (False, 0)))"

text \<open>\<open>ERROR_PATTERNS\<close>, in the order \<open>Object.entries\<close> enumerates it.\<close>

definition ERROR_PATTERNS :: "(string \<times> string list) list" where
  "ERROR_PATTERNS =
    [(''REF'', [''#REF!'', ''#REF?'']),
     (''VALUE'', [''#VALUE!'', ''#VALOR!'']),
     (''NAME'', [''#NAME?'', ''#NOME?'']),
     (''DIV'', [''#DIV/0!'', ''#DIV!'', ''#DIV/0?'']),
     (''NULL'', [''#NULL!'', ''#NULO!'']),
     (''NA'', [''#N/A'', ''#N/D'', ''#ND'']),
     (''NUM'', [''#NUM!'', ''#N'' @ [CHR 0xDA] @ ''M!'']),
     (''GETTING_DATA'', [''#GETTING_DATA'', ''#OBTENDO_DADOS''])]"

definition VLOOKUP_REGEX :: "string list" where
  "VLOOKUP_REGEX = [''VLOOKUP'', ''PROCV'']"

definition HLOOKUP_REGEX :: "string list" where
  "HLOOKUP_REGEX = [''HLOOKUP'', ''PROCH'']"

text \<open>
  \<open>NUMBER_PATTERN = /^-?\d+\.?\d*$/\<close>: an optional minus, a non-empty run of digits,
  then nothing or a dot followed by digits only.
\<close>

definition number_body :: "string \<Rightarrow> bool" where
  "number_body s =
     (takeWhile isDigit s \<noteq> [] \<and>
      (case dropWhile isDigit s of
         [] \<Rightarrow> True
       | d # ds \<Rightarrow> d = CHR ''.'' \<and> list_all isDigit ds))"

definition NUMBER_PATTERN :: "string \<Rightarrow> bool" where
  "NUMBER_PATTERN s =
     (case s of
        [] \<Rightarrow> False
      | c # cs \<Rightarrow> if c = CHR ''-'' then number_body cs else number_body (c # cs))"

text \<open>\<open>DATE_PATTERN = /^\d{1,2}[/-]\d{1,2}[/-]\d{2,4}$/\<close>\<close>

definition isDateSep :: "char \<Rightarrow> bool" where
  "isDateSep c = (c = CHR ''/'' \<or> c = CHR ''-'')"

definition DATE_PATTERN :: "string \<Rightarrow> bool" where
  "DATE_PATTERN s =
     (let d1 = takeWhile isDigit s; r1 = dropWhile isDigit s in
      1 \<le> length d1 \<and> length d1 \<le> 2 \<and>
      (case r1 of
         [] \<Rightarrow> False
       | x # r2 \<Rightarrow>
           isDateSep x \<and>
           (let d2 = takeWhile isDigit r2; r3 = dropWhile isDigit r2 in
            1 \<le> length d2 \<and> length d2 \<le> 2 \<and>
            (case r3 of
               [] \<Rightarrow> False
             | y # d3 \<Rightarrow>
                 isDateSep y \<and> list_all isDigit d3 \<and> 2 \<le> length d3 \<and> length d3 \<le> 4))))"

text \<open>
  \<open>CURRENCY_PATTERN = /^[R$...]\s*-?\d+[.,]?\d*$/\<close>; of the symbols of the class, the
  letter R, the dollar, the pound (0xA3) and the yen (0xA5) are below 256.
\<close>

definition currency_body :: "string \<Rightarrow> bool" where
  "currency_body s =
     (takeWhile isDigit s \<noteq> [] \<and>
      (case dropWhile isDigit s of
         [] \<Rightarrow> True
       | d # ds \<Rightarrow> (d = CHR ''.'' \<or> d = CHR '','') \<and> list_all isDigit ds))"

definition CURRENCY_PATTERN :: "string \<Rightarrow> bool" where
  "CURRENCY_PATTERN s =
     (case s of
        [] \<Rightarrow> False
      | c # cs \<Rightarrow>
          c \<in> set [CHR ''R'', CHR ''$'', CHR 0xA3, CHR 0xA5] \<and>
          (case dropWhile isSpace cs of
             [] \<Rightarrow> False
           | d # ds \<Rightarrow> if d = CHR ''-'' then currency_body ds else currency_body (d # ds)))"

text \<open>
  \<open>EMAIL_PATTERN = /^[^\s@]+@[^\s@]+\.[^\s@]+$/\<close>: a non-empty local part, one at-sign,
  and a domain without white space or at-sign that has a dot strictly inside.
\<close>

definition isEmailChar :: "char \<Rightarrow> bool" where
  "isEmailChar c = (\<not> isSpace c \<and> c \<noteq> CHR ''@'')"

definition EMAIL_PATTERN :: "string \<Rightarrow> bool" where
  "EMAIL_PATTERN s =
     (takeWhile isEmailChar s \<noteq> [] \<and>
      (case dropWhile isEmailChar s of
         [] \<Rightarrow> False
       | a # d \<Rightarrow> a = CHR ''@'' \<and> list_all isEmailChar d \<and> CHR ''.'' \<in> set (butlast (tl d))))"

text \<open>\<open>PHONE_PATTERN = /^[\d\s\(\)\-\+]+$/\<close>\<close>

definition PHONE_PATTERN :: "string \<Rightarrow> bool" where
  "PHONE_PATTERN s =
     (s \<noteq> [] \<and> list_all (\<lambda>c. isDigit c \<or> isSpace c \<or> c \<in> set ''()-+'') s)"

text \<open>
  \<open>(upperFormula.match(/\bIF\(/g) || []).length\<close>: the number of places where \<open>IF(\<close>
  starts right after a non-word character or at the start. Two such matches cannot
  overlap, so counting the starting places counts the matches. \<open>pw\<close> tells whether the
  previous character is a word character.
\<close>

fun ifCount_from :: "bool \<Rightarrow> string \<Rightarrow> nat" where
  "ifCount_from pw [] = 0"
| "ifCount_from pw (c # cs) =
     (if \<not> pw \<and> startsWith (c # cs) ''IF('' then 1 else 0) + ifCount_from (isWordChar c) cs"

definition ifCount :: "string \<Rightarrow> nat" where
  "ifCount s = ifCount_from False s"

text \<open>
  \<open>formula.replace(/([A-Z]+)(\d+)/g, '$$$1$$$2')\<close>: every maximal run of capital letters
  that is directly followed by digits gets a dollar before the letters and before the
  digits. \<open>k\<close> counts the characters of a match still to be skipped.
\<close>

fun lockRefs :: "nat \<Rightarrow> string \<Rightarrow> string" where
  "lockRefs k [] = []"
| "lockRefs (Suc k) (c # cs) = lockRefs k cs"
| "lockRefs 0 (c # cs) =
     (let letters = takeWhile isUpperAZ (c # cs);
          digits = takeWhile isDigit (dropWhile isUpperAZ (c # cs))
      in if letters \<noteq> [] \<and> digits \<noteq> []
         then ''$'' @ letters @ ''$'' @ digits @ lockRefs (length letters + length digits - 1) cs
         else c # lockRefs 0 cs)"

text \<open>
  One match of \<open>sheetRefPattern = /['"]?([^'"!]+)['"]?!/g\<close> at the head of the text:
  an optional quote, the longest non-empty run without quote or exclamation mark, an
  optional quote and an exclamation mark. The result is (\<open>match[0]\<close>, \<open>match[1]\<close>).
\<close>

definition isQuote :: "char \<Rightarrow> bool" where
  "isQuote c = (c = CHR 0x27 \<or> c = CHR 0x22)"

definition isNameChar :: "char \<Rightarrow> bool" where
  "isNameChar c = (\<not> isQuote c \<and> c \<noteq> CHR ''!'')"

definition sheetRef_at :: "string \<Rightarrow> (string \<times> string) option" where
  "sheetRef_at s =
     (let q = (case s of [] \<Rightarrow> [] | c # _ \<Rightarrow> if isQuote c then [c] else []);
          body = drop (length q) s;
          name = takeWhile isNameChar body;
          rest = dropWhile isNameChar body
      in if name = [] then None
         else (case rest of
                 [] \<Rightarrow> None
               | x # xs \<Rightarrow>
                   if x = CHR ''!'' then Some (q @ name @ [x], name)
                   else (case xs of
                           [] \<Rightarrow> None
                         | y # _ \<Rightarrow> if y = CHR ''!'' then Some (q @ name @ [x, y], name) else None)))"

text \<open>
  The loop \<open>while ((match = sheetRefPattern.exec(formula)) !== null)\<close>: all matches from
  left to right, each search starting where the previous match ended.
\<close>

fun sheetRefs :: "nat \<Rightarrow> string \<Rightarrow> (string \<times> string) list" where
  "sheetRefs k [] = []"
| "sheetRefs (Suc k) (c # cs) = sheetRefs k cs"
| "sheetRefs 0 (c # cs) =
     (case sheetRef_at (c # cs) of
        Some m \<Rightarrow> m # sheetRefs (length (fst m) - 1) cs
      | None \<Rightarrow> sheetRefs 0 cs)"

text \<open>
  \<open>str.replace(pattern, replacement)\<close> with a string pattern: the first occurrence is
  replaced, and in the replacement text \<open>$$\<close>, \<open>$&\<close>, dollar-backquote and dollar-quote
  stand for a dollar, the matched text, the text before and the text after the match.
\<close>

fun find_sub :: "string \<Rightarrow> string \<Rightarrow> (string \<times> string) option" where
  "find_sub [] p = (if p = [] then Some ([], []) else None)"
| "find_sub (c # cs) p =
     (if startsWith (c # cs) p then Some ([], drop (length p) (c # cs))
      else (case find_sub cs p of
              None \<Rightarrow> None
            | Some (b, a) \<Rightarrow> Some (c # b, a)))"

fun getSubstitution :: "string \<Rightarrow> string \<Rightarrow> string \<Rightarrow> string \<Rightarrow> string" where
  "getSubstitution m b a [] = []"
| "getSubstitution m b a [c] = [c]"
| "getSubstitution m b a (c # d # r) =
     (if c = CHR ''$'' \<and> d = CHR ''$'' then CHR ''$'' # getSubstitution m b a r
      else if c = CHR ''$'' \<and> d = CHR ''&'' then m @ getSubstitution m b a r
      else if c = CHR ''$'' \<and> d = CHR 0x60 then b @ getSubstitution m b a r
      else if c = CHR ''$'' \<and> d = CHR 0x27 then a @ getSubstitution m b a r
      else c # getSubstitution m b a (d # r))"

definition replaceStr :: "string \<Rightarrow> string \<Rightarrow> string \<Rightarrow> string" where
  "replaceStr s p r =
     (case find_sub s p of
        None \<Rightarrow> s
      | Some (b, a) \<Rightarrow> b @ getSubstitution p b a r @ a)"

text \<open>
  \<open>formula.match(/\(([^)]+)\)/)\<close>: the text between the first opening parenthesis that
  is followed by at least one character other than a closing parenthesis, and the
  closing parenthesis ending that run (\<open>match[1]\<close>).
\<close>

definition notClose :: "char \<Rightarrow> bool" where
  "notClose c = (c \<noteq> CHR '')'')"

fun first_paren_group :: "string \<Rightarrow> string option" where
  "first_paren_group [] = None"
| "first_paren_group (c # cs) =
     (if c = CHR ''('' \<and> takeWhile notClose cs \<noteq> [] \<and> dropWhile notClose cs \<noteq> []
      then Some (takeWhile notClose cs)
      else first_paren_group cs)"

text \<open>
  \<open>new RegExp(`\\b${wrong}\\b`, 'gi')\<close>: the name between two word boundaries,
  case-insensitively. The dot of \<open>CONT.SE\<close> is not escaped and matches any character
  but a line terminator. Every name starts and ends with a letter, so the boundaries
  hold when the neighbours are not word characters.
\<close>

fun wpat_at :: "string \<Rightarrow> string \<Rightarrow> bool" where
  "wpat_at [] s = True"
| "wpat_at (p # ps) [] = False"
| "wpat_at (p # ps) (c # cs) =
     ((if p = CHR ''.'' then c \<noteq> CHR 0x0A \<and> c \<noteq> CHR 0x0D else canon p = canon c)
      \<and> wpat_at ps cs)"

definition word_match_at :: "bool \<Rightarrow> string \<Rightarrow> string \<Rightarrow> bool" where
  "word_match_at pw pat s =
     (\<not> pw \<and> wpat_at pat s \<and>
      (case drop (length pat) s of [] \<Rightarrow> True | d # _ \<Rightarrow> \<not> isWordChar d))"

text \<open>\<open>regex.test(s)\<close> on the fresh expression: is there a match anywhere.\<close>

fun word_test :: "bool \<Rightarrow> string \<Rightarrow> string \<Rightarrow> bool" where
  "word_test pw pat [] = False"
| "word_test pw pat (c # cs) = (word_match_at pw pat (c # cs) \<or> word_test (isWordChar c) pat cs)"

text \<open>\<open>s.replace(regex, correct)\<close>: every match is replaced.\<close>

fun word_replace :: "nat \<Rightarrow> bool \<Rightarrow> string \<Rightarrow> string \<Rightarrow> string \<Rightarrow> string" where
  "word_replace k pw pat rep [] = []"
| "word_replace (Suc k) pw pat rep (c # cs) = word_replace k (isWordChar c) pat rep cs"
| "word_replace 0 pw pat rep (c # cs) =
     (if word_match_at pw pat (c # cs)
      then rep @ word_replace (length pat - 1) (isWordChar c) pat rep cs
      else c # word_replace 0 (isWordChar c) pat rep cs)"

section \<open>Findings\<close>

datatype severity = critical | warning | info

text \<open>The interface \<open>ErrorDetail\<close>; \<open>None\<close> is an absent optional property.\<close>

record ErrorDetail =
  row :: nat
  col :: string
  type :: string
  value' :: string
  proposed :: "string option"
  reason :: "string option"
  sheet :: "string option"
  severity :: "severity option"

section \<open>The fix proposer\<close>

text \<open>\<open>`A1:${lastCol}${lastRow}`\<close>\<close>

definition suggestedRange :: "range \<Rightarrow> string" where
  "suggestedRange rg = ''A1:'' @ encode_col (e_c rg) @ string_of_nat (e_r rg + 1)"

text \<open>\<open>VLOOKUP_REGEX.test(upperFormula) || HLOOKUP_REGEX.test(upperFormula)\<close>\<close>

definition lookupTest :: "rxstate \<Rightarrow> string \<Rightarrow> bool \<times> rxstate" where
  "lookupTest st u =
     (case test_g VLOOKUP_REGEX u (vlookupIdx st) of
        (b1, i1) \<Rightarrow>
          if b1 then (True, st\<lparr>vlookupIdx := i1\<rparr>)
          else (case test_g HLOOKUP_REGEX u (hlookupIdx st) of
                  (b2, i2) \<Rightarrow> (b2, st\<lparr>vlookupIdx := i1, hlookupIdx := i2\<rparr>)))"

definition refReason :: string where
  "refReason = ''Substitu'' @ [CHR 0xED] @ ''do o intervalo quebrado (#REF!) por um range din'' @ [CHR 0xE2] @ ''mico baseado nos dados dispon'' @ [CHR 0xED] @ ''veis.''"

text \<open>The body of the \<open>REF\<close> branch: the arguments of the formula and the rebuilt lookup.\<close>

definition rebuildLookup :: "string \<Rightarrow> range \<Rightarrow> (string \<times> string) option" where
  "rebuildLookup formula rg =
     (case first_paren_group formula of
        None \<Rightarrow> None
      | Some g \<Rightarrow>
          (let args = map trim (split_comma g) in
           if length args \<ge> 3
           then Some (''=VLOOKUP('' @ args ! 0 @ '', '' @ suggestedRange rg @ '', '' @ args ! 2 @ '', FALSE)'',
                      refReason)
           else None))"

definition commonFixes :: "(string \<times> string) list" where
  "commonFixes = [(''SOMA'', ''SUM''), (''SE'', ''IF''), (''CONT.SE'', ''COUNTIF''), (''SOMASE'', ''SUMIF'')]"

fun nameFix :: "(string \<times> string) list \<Rightarrow> string \<Rightarrow> (string \<times> string) option" where
  "nameFix [] formula = None"
| "nameFix ((wrong, correct) # fixes) formula =
     (if word_test False wrong formula
      then Some (''='' @ word_replace 0 False wrong correct formula,
                 ''Nome de fun'' @ [CHR 0xE7] @ [CHR 0xE3] @ ''o corrigido de '' @ wrong @ '' para '' @ correct @ ''.'')
      else nameFix fixes formula)"

text \<open>
  \<open>proposeFixForError(error, formula, worksheet, range, workbook)\<close>; the worksheet and
  the workbook are not used by the body. The result is (formula, reason) or \<open>None\<close> for
  \<open>null\<close>, with the state of the two lookup expressions.
\<close>

definition proposeFixForError ::
  "rxstate \<Rightarrow> ErrorDetail \<Rightarrow> string \<Rightarrow> range \<Rightarrow> (string \<times> string) option \<times> rxstate" where
  "proposeFixForError st err formula rg =
     (if formula = [] then (None, st)
      else
        (let upperFormula = toUpperCase formula in
         case (if type err = ''REF'' then lookupTest st upperFormula else (False, st)) of
           (isLookup, st') \<Rightarrow>
             (case (if isLookup then rebuildLookup formula rg else None) of
                Some p \<Rightarrow> (Some p, st')
              | None \<Rightarrow>
                  if type err = ''VALUE''
                  then (Some (''=IFERROR('' @ formula @ '', 0)'',
                              ''Encapsulado com IFERROR para tratar o erro #VALUE! e retornar 0 em caso de falha.''), st')
                  else (case (if type err = ''NAME'' then nameFix commonFixes formula else None) of
                          Some p \<Rightarrow> (Some p, st')
                        | None \<Rightarrow>
                            if type err = ''DIV''
                            then (Some (''=IFERROR('' @ formula @ '', '' @ [CHR 0x22] @ ''N/A'' @ [CHR 0x22] @ '')'',
                                        ''Encapsulado com IFERROR para evitar divis'' @ [CHR 0xE3] @ ''o por zero.''), st')
                            else (None, st')))))"

section \<open>The detectors\<close>

definition detectFormulaIssues ::
  "rxstate \<Rightarrow> string \<Rightarrow> string \<Rightarrow> nat \<Rightarrow> nat \<Rightarrow> ErrorDetail option \<times> rxstate" where
  "detectFormulaIssues st formula sheetName r c =
     (let upperFormula = toUpperCase formula in
      if length formula > 500
      then (Some \<lparr>row = r + 1, col = encode_col c, type = ''COMPLEX_FORMULA'',
                  value' = ''='' @ take 100 formula @ ''...'',
                  proposed = None,
                  reason = Some (''F'' @ [CHR 0xF3] @ ''rmula muito longa e complexa. Considere dividir em c'' @ [CHR 0xE9] @ ''lulas auxiliares.''),
                  sheet = Some sheetName, severity = Some info\<rparr>, st)
      else if ifCount upperFormula > 5
      then (Some \<lparr>row = r + 1, col = encode_col c, type = ''NESTED_IFS'',
                  value' = ''='' @ formula,
                  proposed = None,
                  reason = Some (string_of_nat (ifCount upperFormula) @ '' fun'' @ [CHR 0xE7] @ [CHR 0xF5] @ ''es IF aninhadas detectadas. Considere usar SWITCH ou tabelas de refer'' @ [CHR 0xEA] @ ''ncia.''),
                  sheet = Some sheetName, severity = Some warning\<rparr>, st)
      else (case test_g VLOOKUP_REGEX upperFormula (vlookupIdx st) of
              (b, i) \<Rightarrow>
                if b \<and> \<not> includes' formula ''$''
                then (Some \<lparr>row = r + 1, col = encode_col c, type = ''VLOOKUP_NO_LOCK'',
                            value' = ''='' @ formula,
                            proposed = Some (''='' @ lockRefs 0 formula),
                            reason = Some (''VLOOKUP/PROCV sem refer'' @ [CHR 0xEA] @ ''ncias absolutas ($). Pode causar erros ao copiar.''),
                            sheet = Some sheetName, severity = Some warning\<rparr>,
                      st\<lparr>vlookupIdx := i\<rparr>)
                else (None, st\<lparr>vlookupIdx := i\<rparr>)))"

definition detectEmptyGaps ::
  "worksheet \<Rightarrow> nat \<Rightarrow> nat \<Rightarrow> range \<Rightarrow> string \<Rightarrow> ErrorDetail option" where
  "detectEmptyGaps ws r c rg sheetName =
     (if hasValue ws r c then None
      else
        (let hasAbove = list_ex (\<lambda>R. hasValue ws R c) [s_r rg ..< r];
             hasBelow = list_ex (\<lambda>R. hasValue ws R c) [r + 1 ..< Suc (e_r rg)]
         in if hasAbove \<and> hasBelow
            then Some \<lparr>row = r + 1, col = encode_col c, type = ''EMPTY_GAP'',
                       value' = ''(vazio)'',
                       proposed = None,
                       reason = Some (''C'' @ [CHR 0xE9] @ ''lula vazia detectada em meio aos dados. Pode indicar informa'' @ [CHR 0xE7] @ [CHR 0xE3] @ ''o faltante.''),
                       sheet = Some sheetName, severity = Some info\<rparr>
            else None))"

text \<open>
  The sample of \<open>validateDataType\<close>: the texts of the cells without formula in the first
  21 rows of the column.
\<close>

definition sampleValues :: "worksheet \<Rightarrow> range \<Rightarrow> nat \<Rightarrow> string list" where
  "sampleValues ws rg c =
     concat (map (\<lambda>R. case cells ws (encode_cell R c) of
                         None \<Rightarrow> []
                       | Some x \<Rightarrow> if formulaString x \<noteq> [] then [] else [valueString x])
                 [s_r rg ..< Suc (min (s_r rg + 20) (e_r rg))])"

definition validateDataType ::
  "cell \<Rightarrow> nat \<Rightarrow> nat \<Rightarrow> string \<Rightarrow> worksheet \<Rightarrow> range \<Rightarrow> ErrorDetail option" where
  "validateDataType x r c sheetName ws rg =
     (let cellValue = valueString x;
          colLetter = encode_col c;
          numericCount = length (filter NUMBER_PATTERN (sampleValues ws rg c));
          textCount = length (filter (\<lambda>val. \<not> NUMBER_PATTERN val \<and> length val > 0) (sampleValues ws rg c))
      in if numericCount > 5 \<and> 3 * textCount < numericCount
         then (if \<not> NUMBER_PATTERN cellValue \<and> length cellValue > 0
               then Some \<lparr>row = r + 1, col = colLetter, type = ''TYPE_MISMATCH'',
                          value' = cellValue,
                          proposed = None,
                          reason = Some (''Texto detectado em coluna num'' @ [CHR 0xE9] @ ''rica. Isso pode causar erros em c'' @ [CHR 0xE1] @ ''lculos.''),
                          sheet = Some sheetName, severity = Some warning\<rparr>
               else None)
         else None)"

definition validateMergedCell :: "range \<Rightarrow> string \<Rightarrow> worksheet \<Rightarrow> ErrorDetail option" where
  "validateMergedCell merge sheetName ws =
     (let startCell = encode_cell (s_r merge) (s_c merge);
          endCell = encode_cell (e_r merge) (e_c merge)
      in case cells ws startCell of
           None \<Rightarrow> None
         | Some x \<Rightarrow>
             if formulaString x \<noteq> []
             then Some \<lparr>row = s_r merge + 1, col = encode_col (s_c merge), type = ''MERGED_FORMULA'',
                        value' = ''Mesclado '' @ startCell @ '':'' @ endCell,
                        proposed = None,
                        reason = Some (''C'' @ [CHR 0xE9] @ ''lula mesclada cont'' @ [CHR 0xE9] @ ''m f'' @ [CHR 0xF3] @ ''rmula, o que pode causar comportamento inesperado.''),
                        sheet = Some sheetName, severity = Some warning\<rparr>
             else None)"

text \<open>The cell positions of a range in the order of the two nested loops (rows outside).\<close>

definition positions :: "range \<Rightarrow> (nat \<times> nat) list" where
  "positions rg = concat (map (\<lambda>R. map (\<lambda>C. (R, C)) [s_c rg ..< Suc (e_c rg)]) [s_r rg ..< Suc (e_r rg)])"

text \<open>\<open>workbook.SheetNames[0]\<close> inside a template literal.\<close>

definition firstSheetName :: "workbook \<Rightarrow> string" where
  "firstSheetName wb = (case SheetNames wb of [] \<Rightarrow> ''undefined'' | n # _ \<Rightarrow> n)"

text \<open>The findings of \<open>validateCrossSheetReferences\<close> for one formula cell.\<close>

definition crossSheetCell :: "workbook \<Rightarrow> string \<Rightarrow> nat \<Rightarrow> nat \<Rightarrow> string \<Rightarrow> ErrorDetail list" where
  "crossSheetCell wb sheetName r c formula =
     concat (map (\<lambda>(m0, referencedSheet).
                    if referencedSheet \<notin> set (SheetNames wb)
                    then [\<lparr>row = r + 1, col = encode_col c, type = ''CROSS_SHEET_REF'',
                           value' = ''='' @ formula,
                           proposed = Some (''='' @ replaceStr formula m0 (firstSheetName wb @ ''!'')),
                           reason = Some (''Refer'' @ [CHR 0xEA] @ ''ncia a sheet inexistente: '' @ [CHR 0x22] @ referencedSheet @ [CHR 0x22]),
                           sheet = Some sheetName, severity = Some critical\<rparr>]
                    else [])
                 (sheetRefs 0 formula))"

definition validateCrossSheetReferences ::
  "worksheet \<Rightarrow> string \<Rightarrow> workbook \<Rightarrow> range \<Rightarrow> ErrorDetail list" where
  "validateCrossSheetReferences ws sheetName wb rg =
     concat (map (\<lambda>(R, C). case cells ws (encode_cell R C) of
                              None \<Rightarrow> []
                            | Some x \<Rightarrow>
                                if formulaString x = [] then []
                                else crossSheetCell wb sheetName R C (formulaString x))
                 (positions rg))"

text \<open>
  A \<open>Map\<close> keeps its keys in insertion order. \<open>map_upd k g d m\<close> is the idiom
  \<open>if (!m.has(k)) m.set(k, d)\<close> followed by a change \<open>g\<close> of the value stored at \<open>k\<close>.
\<close>

fun map_upd :: "'k \<Rightarrow> ('v \<Rightarrow> 'v) \<Rightarrow> 'v \<Rightarrow> ('k \<times> 'v) list \<Rightarrow> ('k \<times> 'v) list" where
  "map_upd k g d [] = [(k, g d)]"
| "map_upd k g d ((k', x) # m) =
     (if k' = k then (k', g x) # m else (k', x) # map_upd k g d m)"

definition formatOf :: "string \<Rightarrow> string" where
  "formatOf val =
     (if NUMBER_PATTERN val then ''number''
      else if DATE_PATTERN val then ''date''
      else if EMAIL_PATTERN val then ''email''
      else if PHONE_PATTERN val \<and> length val > 8 then ''phone''
      else if CURRENCY_PATTERN val then ''currency''
      else ''text'')"

text \<open>The map \<open>columnFormats\<close> of one column: format name to the rows showing it.\<close>

definition columnFormats :: "worksheet \<Rightarrow> range \<Rightarrow> nat \<Rightarrow> (string \<times> nat list) list" where
  "columnFormats ws rg c =
     foldl (\<lambda>m R. case cells ws (encode_cell R c) of
                     None \<Rightarrow> m
                   | Some x \<Rightarrow>
                       if truthy_v x
                       then map_upd (formatOf (valueString x)) (\<lambda>rows. rows @ [R]) [] m
                       else m)
           [] [s_r rg ..< Suc (e_r rg)]"

text \<open>
  The findings of one column. The rows reported were collected from existing cells, so
  the cell read again for the \<open>value\<close> field exists.
\<close>

definition formatColumn :: "worksheet \<Rightarrow> string \<Rightarrow> range \<Rightarrow> nat \<Rightarrow> ErrorDetail list" where
  "formatColumn ws sheetName rg c =
     (let cf = columnFormats ws rg c in
      if length cf > 1
      then
        (let formats = map fst cf;
             mainFormat = (case filter (\<lambda>f. f \<noteq> ''text'') formats of [] \<Rightarrow> ''text'' | f # _ \<Rightarrow> f)
         in concat (map (\<lambda>(format, rows).
                      if format \<noteq> mainFormat \<and> length rows < 5
                      then map (\<lambda>R. \<lparr>row = R + 1, col = encode_col c, type = ''FORMAT_MISMATCH'',
                                      value' = (case cells ws (encode_cell R c) of
                                                  None \<Rightarrow> []
                                                | Some x \<Rightarrow> valueString x),
                                      proposed = None,
                                      reason = Some (''Formato '' @ [CHR 0x22] @ format @ [CHR 0x22] @ '' detectado em coluna com formato predominante '' @ [CHR 0x22] @ mainFormat @ [CHR 0x22] @ ''.''),
                                      sheet = Some sheetName, severity = Some info\<rparr>) rows
                      else []) cf))
      else [])"

definition detectFormatInconsistencies :: "worksheet \<Rightarrow> string \<Rightarrow> range \<Rightarrow> ErrorDetail list" where
  "detectFormatInconsistencies ws sheetName rg =
     concat (map (formatColumn ws sheetName rg) [s_c rg ..< Suc (e_c rg)])"

text \<open>The map \<open>columnValues\<close>: column to (normalised text to rows).\<close>

type_synonym colvals = "(nat \<times> (string \<times> nat list) list) list"

definition collectValue :: "colvals \<Rightarrow> nat \<Rightarrow> nat \<Rightarrow> cell \<Rightarrow> colvals" where
  "collectValue cv R C x =
     (let cellValue = valueString x; cellFormula = formulaString x in
      if cellValue \<noteq> [] \<and> cellFormula = [] \<and> trim cellValue \<noteq> []
      then map_upd C (map_upd (trim (toLowerCase cellValue)) (\<lambda>rows. rows @ [R]) []) [] cv
      else cv)"

definition duplicateFindings :: "colvals \<Rightarrow> string \<Rightarrow> ErrorDetail list" where
  "duplicateFindings cv sheetName =
     concat (map (\<lambda>(colIndex, valueMap).
       concat (map (\<lambda>(val, rows).
         if length rows > 1 \<and> length val > 2
         then map (\<lambda>rowIndex. \<lparr>row = rowIndex + 1, col = encode_col colIndex, type = ''DUPLICATE'',
                                value' = val,
                                proposed = None,
                                reason = Some (''Valor duplicado encontrado em '' @ string_of_nat (length rows) @ '' c'' @ [CHR 0xE9] @ ''lulas desta coluna.''),
                                sheet = Some sheetName, severity = Some info\<rparr>) rows
         else []) valueMap)) cv)"

section \<open>The orchestrator\<close>

text \<open>The error kind of a cell tagged \<open>e\<close>, sniffed from its upper-cased text.\<close>

definition nativeErrorType :: "string \<Rightarrow> string" where
  "nativeErrorType valueUpper =
     (if includes' valueUpper ''REF'' then ''REF''
      else if includes' valueUpper ''DIV'' then ''DIV''
      else if includes' valueUpper ''NAME'' \<or> includes' valueUpper ''NOME'' then ''NAME''
      else if includes' valueUpper ''NULL'' \<or> includes' valueUpper ''NULO'' then ''NULL''
      else if includes' valueUpper ''N/A'' \<or> includes' valueUpper ''N/D'' then ''NA''
      else if includes' valueUpper ''NUM'' \<or> includes' valueUpper (''N'' @ [CHR 0xDA] @ ''M'') then ''NUM''
      else ''VALUE'')"

text \<open>
  The error object built in both error branches of the cell loop, with the proposal of
  \<open>proposeFixForError\<close> added when there is one.
\<close>

definition errorFinding ::
  "rxstate \<Rightarrow> string \<Rightarrow> string \<Rightarrow> string \<Rightarrow> string \<Rightarrow> range \<Rightarrow> nat \<Rightarrow> nat \<Rightarrow> ErrorDetail \<times> rxstate" where
  "errorFinding st errorType cellValue cellFormula sheetName rg R C =
     (let err = \<lparr>row = R + 1, col = encode_col C, type = errorType,
                 value' = (if cellFormula \<noteq> [] then ''='' @ cellFormula else cellValue),
                 proposed = None, reason = None,
                 sheet = Some sheetName,
                 severity = Some (if errorType = ''REF'' \<or> errorType = ''DIV'' then critical else warning)\<rparr>
      in case proposeFixForError st err cellFormula rg of
           (None, st') \<Rightarrow> (err, st')
         | (Some (pf, pr), st') \<Rightarrow> (err\<lparr>proposed := Some pf, reason := Some pr\<rparr>, st'))"

text \<open>
  The loop over \<open>Object.entries(ERROR_PATTERNS)\<close>: the key of the first expression whose
  \<open>test\<close> succeeds on the value or, failing that, on the formula. Every \<open>test\<close> that runs
  updates the \<open>lastIndex\<close> of its expression.
\<close>

fun matchErrorPatterns ::
  "(string \<times> string list) list \<Rightarrow> rxstate \<Rightarrow> string \<Rightarrow> string \<Rightarrow> string option \<times> rxstate" where
  "matchErrorPatterns [] st cellValue cellFormula = (None, st)"
| "matchErrorPatterns ((errorType, alts) # ps) st cellValue cellFormula =
     (case test_g alts cellValue (errIdx st errorType) of
        (b1, i1) \<Rightarrow>
          if b1 then (Some errorType, st\<lparr>errIdx := (errIdx st)(errorType := i1)\<rparr>)
          else (case test_g alts cellFormula i1 of
                  (b2, i2) \<Rightarrow>
                    if b2 then (Some errorType, st\<lparr>errIdx := (errIdx st)(errorType := i2)\<rparr>)
                    else matchErrorPatterns ps (st\<lparr>errIdx := (errIdx st)(errorType := i2)\<rparr>)
                           cellValue cellFormula))"

definition opt_list :: "'a option \<Rightarrow> 'a list" where
  "opt_list x = (case x of None \<Rightarrow> [] | Some y \<Rightarrow> [y])"

text \<open>
  The body of the cell loop for an existing cell, after the collection of duplicate
  values: the findings pushed for this cell, in order.
\<close>

definition scanCell ::
  "rxstate \<Rightarrow> worksheet \<Rightarrow> range \<Rightarrow> string \<Rightarrow> nat \<Rightarrow> nat \<Rightarrow> cell \<Rightarrow> ErrorDetail list \<times> rxstate" where
  "scanCell st ws rg sheetName R C x =
     (let cellValue = valueString x; cellFormula = formulaString x in
      if cell_t x = ''e''
      then (case errorFinding st (nativeErrorType (toUpperCase cellValue)) cellValue cellFormula sheetName rg R C of
              (e, st') \<Rightarrow> ([e], st'))
      else
        (case matchErrorPatterns ERROR_PATTERNS st cellValue cellFormula of
           (hit, st1) \<Rightarrow>
             (case (case hit of
                      None \<Rightarrow> ([], st1)
                    | Some errorType \<Rightarrow>
                        (case errorFinding st1 errorType cellValue cellFormula sheetName rg R C of
                           (e, st') \<Rightarrow> ([e], st'))) of
                (errs1, st2) \<Rightarrow>
                  (case (if cellFormula \<noteq> [] then detectFormulaIssues st2 cellFormula sheetName R C
                         else (None, st2)) of
                     (formulaIssue, st3) \<Rightarrow>
                       (errs1 @ opt_list formulaIssue
                          @ opt_list (if cellValue \<noteq> [] \<and> cellFormula = []
                                      then validateDataType x R C sheetName ws rg else None)
                          @ opt_list (detectEmptyGaps ws R C rg sheetName),
                        st3)))))"

text \<open>The two nested loops of the first pass; a position without a cell is skipped.\<close>

fun scanCells ::
  "worksheet \<Rightarrow> range \<Rightarrow> string \<Rightarrow> (nat \<times> nat) list \<Rightarrow>
   ErrorDetail list \<times> rxstate \<times> colvals \<Rightarrow> ErrorDetail list \<times> rxstate \<times> colvals" where
  "scanCells ws rg sheetName [] acc = acc"
| "scanCells ws rg sheetName ((R, C) # ps) (errors, st, cv) =
     (case cells ws (encode_cell R C) of
        None \<Rightarrow> scanCells ws rg sheetName ps (errors, st, cv)
      | Some x \<Rightarrow>
          (case scanCell st ws rg sheetName R C x of
             (new, st') \<Rightarrow> scanCells ws rg sheetName ps (errors @ new, st', collectValue cv R C x)))"

text \<open>The body of \<open>sheetsToAnalyze.forEach\<close> for an existing sheet.\<close>

definition analyzeSheet :: "workbook \<Rightarrow> string \<Rightarrow> worksheet \<Rightarrow> rxstate \<Rightarrow> ErrorDetail list \<times> rxstate" where
  "analyzeSheet wb sheetName ws st =
     (let rg = sheet_range ws;
          mergedCells = (case merges ws of None \<Rightarrow> [] | Some ms \<Rightarrow> ms)
      in case scanCells ws rg sheetName (positions rg) ([], st, []) of
           (errs, st', cv) \<Rightarrow>
             (errs
                @ duplicateFindings cv sheetName
                @ concat (map (\<lambda>merge. opt_list (validateMergedCell merge sheetName ws)) mergedCells)
                @ validateCrossSheetReferences ws sheetName wb rg
                @ detectFormatInconsistencies ws sheetName rg,
              st'))"

text \<open>
  \<open>sheetsToAnalyze.forEach\<close>. For a name that is not a sheet of the workbook,
  \<open>workbook.Sheets[sheetName]\<close> is undefined or a built-in object that every object
  inherits; such an object has no range, no merges and no cell at any address, so either
  way the name adds no finding and runs no \<open>test\<close>.
\<close>

fun analyzeSheets :: "workbook \<Rightarrow> string list \<Rightarrow> rxstate \<Rightarrow> ErrorDetail list \<times> rxstate" where
  "analyzeSheets wb [] st = ([], st)"
| "analyzeSheets wb (sheetName # ns) st =
     (case Sheets wb sheetName of
        None \<Rightarrow> analyzeSheets wb ns st
      | Some ws \<Rightarrow>
          (case analyzeSheet wb sheetName ws st of
             (e1, st1) \<Rightarrow>
               (case analyzeSheets wb ns st1 of
                  (e2, st2) \<Rightarrow> (e1 @ e2, st2))))"

text \<open>
  \<open>analyzeExcelFile(file, selectedSheets)\<close> on the decoded workbook: the findings, and
  the state in which the module-level expressions are left.
\<close>

definition analyzeExcelFile ::
  "rxstate \<Rightarrow> workbook \<Rightarrow> string list option \<Rightarrow> ErrorDetail list \<times> rxstate" where
  "analyzeExcelFile st wb selectedSheets =
     (let sheetsToAnalyze = (case selectedSheets of
                               None \<Rightarrow> SheetNames wb
                             | Some sel \<Rightarrow> if length sel > 0 then sel else SheetNames wb)
      in analyzeSheets wb sheetsToAnalyze st)"

section \<open>The patch applier\<close>

text \<open>\<open>errors[index]\<close> of an index outside the array is undefined and reading its
  \<open>proposed\<close> throws; the promise is rejected.\<close>

datatype patch_error = TypeError

text \<open>\<open>error.proposed.startsWith('=') ? error.proposed.substring(1) : error.proposed\<close>\<close>

definition stripEq :: "string \<Rightarrow> string" where
  "stripEq p = (if startsWith p ''='' then drop 1 p else p)"

text \<open>\<open>error.sheet || workbook.SheetNames[0]\<close>, used as a property key.\<close>

definition targetSheet :: "workbook \<Rightarrow> ErrorDetail \<Rightarrow> string" where
  "targetSheet wb err =
     (case sheet err of
        None \<Rightarrow> firstSheetName wb
      | Some n \<Rightarrow> if n = [] then firstSheetName wb else n)"

text \<open>\<open>`${error.col}${error.row}`\<close>\<close>

definition targetAddress :: "ErrorDetail \<Rightarrow> string" where
  "targetAddress err = col err @ string_of_nat (row err)"

definition missingSheetWarning :: "string \<Rightarrow> string" where
  "missingSheetWarning sheetName =
     ''Sheet '' @ [CHR 0x22] @ sheetName @ [CHR 0x22] @ '' n'' @ [CHR 0xE3] @ ''o encontrada. Pulando corre'' @ [CHR 0xE7] @ [CHR 0xE3] @ ''o.''"

text \<open>
  The objects of the workbook are plain objects: a property that is not their own is
  read from \<open>Object.prototype\<close>. \<open>workbook.Sheets[sheetName]\<close> is therefore also
  truthy for a name that is not a sheet when \<open>Object.prototype\<close> has a property of
  that name, and \<open>worksheet[cellAddress]\<close> also finds a cell stored on
  \<open>Object.prototype\<close>. These are the property names every plain object inherits.
\<close>

definition inheritedNames :: "string list" where
  "inheritedNames =
     [''constructor'', ''__defineGetter__'', ''__defineSetter__'', ''hasOwnProperty'',
      ''__lookupGetter__'', ''__lookupSetter__'', ''isPrototypeOf'', ''propertyIsEnumerable'',
      ''toString'', ''valueOf'', ''__proto__'', ''toLocaleString'']"

text \<open>
  The cells that the patch applier has stored on objects outside the workbook, by the
  name under which \<open>workbook.Sheets\<close> reaches the object and by address. The name
  \<open>__proto__\<close> reaches \<open>Object.prototype\<close> itself; the other inherited names reach
  built-in functions; an address at which a cell was stored on \<open>Object.prototype\<close>
  reaches that cell object. An address ends in a digit and no property of these
  objects does, so nothing else is found under an address.
\<close>

type_synonym outside = "string \<Rightarrow> string \<rightharpoonup> cell"

definition noOutside :: outside where
  "noOutside = (\<lambda>_. Map.empty)"

text \<open>
  \<open>workbook.Sheets[sheetName]\<close>: a sheet of the workbook, an object outside the
  workbook (truthy), or undefined.
\<close>

datatype sheet_target = OwnSheet worksheet | OutsideObject | NoSheet

definition resolveSheet :: "workbook \<Rightarrow> outside \<Rightarrow> string \<Rightarrow> sheet_target" where
  "resolveSheet wb out sheetName =
     (case Sheets wb sheetName of
        Some ws \<Rightarrow> OwnSheet ws
      | None \<Rightarrow>
          if sheetName \<in> set inheritedNames \<or> out ''__proto__'' sheetName \<noteq> None
          then OutsideObject
          else NoSheet)"

text \<open>\<open>cell.f = formula; delete cell.v\<close> on an existing cell, and the cell created otherwise.\<close>

definition patchCell :: "string \<Rightarrow> cell \<Rightarrow> cell" where
  "patchCell p x = x\<lparr>cell_f := Some (stripEq p), cell_v := None\<rparr>"

definition createdCell :: "string \<Rightarrow> cell" where
  "createdCell p = \<lparr>cell_v = None, cell_f = Some (stripEq p), cell_t = ''n''\<rparr>"

text \<open>
  The body of \<open>selectedFixes.forEach\<close> for one existing finding. The state is the
  workbook, the lines written by \<open>console.warn\<close> and the cells stored outside the
  workbook. The cell read by \<open>worksheet[cellAddress]\<close> is the own one, else the one on
  \<open>Object.prototype\<close>; an existing cell is changed where it was found, a new cell
  becomes an own property of the object that \<open>worksheet\<close> is.
\<close>

definition applyFix ::
  "ErrorDetail \<Rightarrow> workbook \<times> string list \<times> outside \<Rightarrow> workbook \<times> string list \<times> outside" where
  "applyFix err st =
     (case st of
        (wb, warnings, out) \<Rightarrow>
          (case proposed err of
             None \<Rightarrow> (wb, warnings, out)
           | Some p \<Rightarrow>
               if p = [] then (wb, warnings, out)
               else
                 (let sheetName = targetSheet wb err;
                      cellAddress = targetAddress err
                  in case resolveSheet wb out sheetName of
                       NoSheet \<Rightarrow> (wb, warnings @ [missingSheetWarning sheetName], out)
                     | OwnSheet ws \<Rightarrow>
                         (case cells ws cellAddress of
                            Some x \<Rightarrow>
                              (wb\<lparr>Sheets := (Sheets wb)(sheetName \<mapsto>
                                     ws\<lparr>cells := (cells ws)(cellAddress \<mapsto> patchCell p x)\<rparr>)\<rparr>,
                               warnings, out)
                          | None \<Rightarrow>
                              (case out ''__proto__'' cellAddress of
                                 Some x \<Rightarrow>
                                   (wb, warnings,
                                    out(''__proto__'' := (out ''__proto__'')(cellAddress \<mapsto> patchCell p x)))
                               | None \<Rightarrow>
                                   (wb\<lparr>Sheets := (Sheets wb)(sheetName \<mapsto>
                                          ws\<lparr>cells := (cells ws)(cellAddress \<mapsto> createdCell p)\<rparr>)\<rparr>,
                                    warnings, out)))
                     | OutsideObject \<Rightarrow>
                         (case out sheetName cellAddress of
                            Some x \<Rightarrow>
                              (wb, warnings,
                               out(sheetName := (out sheetName)(cellAddress \<mapsto> patchCell p x)))
                          | None \<Rightarrow>
                              (case out ''__proto__'' cellAddress of
                                 Some x \<Rightarrow>
                                   (wb, warnings,
                                    out(''__proto__'' := (out ''__proto__'')(cellAddress \<mapsto> patchCell p x)))
                               | None \<Rightarrow>
                                   (wb, warnings,
                                    out(sheetName := (out sheetName)(cellAddress \<mapsto> createdCell p))))))))"

text \<open>
  \<open>selectedFixes.forEach\<close>: the accepted indices in the insertion order of the set.
\<close>

fun applyFixes_loop ::
  "nat list \<Rightarrow> ErrorDetail list \<Rightarrow> workbook \<times> string list \<times> outside \<Rightarrow>
   patch_error + workbook \<times> string list \<times> outside" where
  "applyFixes_loop [] errors st = Inr st"
| "applyFixes_loop (index # rest) errors st =
     (if index < length errors
      then applyFixes_loop rest errors (applyFix (errors ! index) st)
      else Inl TypeError)"

text \<open>
  \<open>applyFixes(file, selectedFixes, errors)\<close> on the decoded workbook, in a page where
  nothing has been stored on \<open>Object.prototype\<close> yet: the final state of the loop, or
  the rejection.
\<close>

definition applyFixes_run ::
  "workbook \<Rightarrow> nat list \<Rightarrow> ErrorDetail list \<Rightarrow> patch_error + workbook \<times> string list \<times> outside" where
  "applyFixes_run wb selectedFixes errors = applyFixes_loop selectedFixes errors (wb, [], noOutside)"

text \<open>
  Of that state, the patched workbook (the own properties of its objects) handed to the
  encoder and the warnings. What the call stored outside the workbook stays in the page
  and is given by \<open>applyFixes_run\<close>; \<open>analyzeExcelFile\<close> above is the analysis in a
  page where nothing was stored there.
\<close>

definition applyFixes ::
  "workbook \<Rightarrow> nat list \<Rightarrow> ErrorDetail list \<Rightarrow> patch_error + workbook \<times> string list" where
  "applyFixes wb selectedFixes errors =
     (case applyFixes_run wb selectedFixes errors of
        Inl e \<Rightarrow> Inl e
      | Inr (wb', warnings, out) \<Rightarrow> Inr (wb', warnings))"

section \<open>Vocabulary of the properties\<close>

text \<open>A field that is present and not the empty string (a truthy optional string).\<close>

definition nonEmptyOpt :: "string option \<Rightarrow> bool" where
  "nonEmptyOpt x = (case x of None \<Rightarrow> False | Some s \<Rightarrow> s \<noteq> [])"

text \<open>The cell of a workbook at a sheet name and an address, if both exist.\<close>

definition cellAt :: "workbook \<Rightarrow> string \<Rightarrow> string \<Rightarrow> cell option" where
  "cellAt wb sheetName a = (case Sheets wb sheetName of None \<Rightarrow> None | Some ws \<Rightarrow> cells ws a)"

text \<open>A finding carries a proposal and addresses the cell \<open>a\<close> of the sheet \<open>sheetName\<close>.\<close>

definition hits :: "workbook \<Rightarrow> ErrorDetail \<Rightarrow> string \<Rightarrow> string \<Rightarrow> bool" where
  "hits wb err sheetName a =
     (nonEmptyOpt (proposed err) \<and> targetSheet wb err = sheetName \<and> targetAddress err = a)"

text \<open>A finding carries a proposal and names a sheet that the workbook does not have.\<close>

definition missingTarget :: "workbook \<Rightarrow> ErrorDetail \<Rightarrow> bool" where
  "missingTarget wb err = (nonEmptyOpt (proposed err) \<and> Sheets wb (targetSheet wb err) = None)"

text \<open>The warnings of a run of the patch applier, and a cell it stored outside the workbook.\<close>

definition runWarnings :: "patch_error + workbook \<times> string list \<times> outside \<Rightarrow> string list" where
  "runWarnings r = (case r of Inl _ \<Rightarrow> [] | Inr st \<Rightarrow> fst (snd st))"

definition outsideCell ::
  "patch_error + workbook \<times> string list \<times> outside \<Rightarrow> string \<Rightarrow> string \<Rightarrow> cell option" where
  "outsideCell r name a = (case r of Inl _ \<Rightarrow> None | Inr st \<Rightarrow> snd (snd st) name a)"

definition patchedWorkbook :: "patch_error + workbook \<times> string list \<Rightarrow> workbook option" where
  "patchedWorkbook r = (case r of Inl _ \<Rightarrow> None | Inr wl \<Rightarrow> Some (fst wl))"

definition resultCell :: "patch_error + workbook \<times> string list \<Rightarrow> string \<Rightarrow> string \<Rightarrow> cell option" where
  "resultCell r sheetName a = (case patchedWorkbook r of None \<Rightarrow> None | Some wb \<Rightarrow> cellAt wb sheetName a)"

text \<open>A finding that carries a proposal also carries a reason.\<close>

definition okFinding :: "ErrorDetail \<Rightarrow> bool" where
  "okFinding e = (nonEmptyOpt (proposed e) \<longrightarrow> nonEmptyOpt (reason e))"

text \<open>The kinds given to a cell with the native error tag, and the heuristic kinds of the cell loop.\<close>

definition nativeKinds :: "string list" where
  "nativeKinds = [''REF'', ''DIV'', ''NAME'', ''NULL'', ''NA'', ''NUM'', ''VALUE'']"

definition heuristicKinds :: "string list" where
  "heuristicKinds = [''COMPLEX_FORMULA'', ''NESTED_IFS'', ''VLOOKUP_NO_LOCK'', ''TYPE_MISMATCH'', ''EMPTY_GAP'']"

text \<open>The findings of the cell loop (the first pass) over one sheet.\<close>

definition firstPass :: "worksheet \<Rightarrow> string \<Rightarrow> rxstate \<Rightarrow> ErrorDetail list" where
  "firstPass ws sheetName st =
     fst (scanCells ws (sheet_range ws) sheetName (positions (sheet_range ws)) ([], st, []))"

section \<open>Example workbooks\<close>

text \<open>
  One sheet \<open>S\<close> whose cell A1 shows the text of a division error produced by a lookup
  formula without absolute references.
\<close>

definition wbDiv :: workbook where
  "wbDiv =
     \<lparr>SheetNames = [''S''],
      Sheets = [''S'' \<mapsto>
        \<lparr>cells = [''A1'' \<mapsto> \<lparr>cell_v = Some (VStr ''#DIV/0!''),
                              cell_f = Some ''VLOOKUP(A1,B1:C2,2)/0'',
                              cell_t = ''s''\<rparr>],
         ref = Some \<lparr>s_r = 0, s_c = 0, e_r = 0, e_c = 0\<rparr>,
         merges = None\<rparr>]\<rparr>"

text \<open>
  One sheet \<open>S\<close> with a formula cell A1 and a number in B1, and three findings: one
  for A1 of \<open>S\<close>, one for a sheet \<open>Gone\<close> that the workbook does not have, one for A3
  of \<open>S\<close>.
\<close>

definition wbPatch :: workbook where
  "wbPatch =
     \<lparr>SheetNames = [''S''],
      Sheets = [''S'' \<mapsto>
        \<lparr>cells = [''A1'' \<mapsto> \<lparr>cell_v = Some (VStr ''#DIV/0!''), cell_f = Some ''B1/C1'', cell_t = ''s''\<rparr>,
                  ''B1'' \<mapsto> \<lparr>cell_v = Some (VNum ''4''), cell_f = None, cell_t = ''n''\<rparr>],
         ref = Some \<lparr>s_r = 0, s_c = 0, e_r = 0, e_c = 1\<rparr>,
         merges = None\<rparr>]\<rparr>"

definition errsPatch :: "ErrorDetail list" where
  "errsPatch =
     [\<lparr>row = 1, col = ''A'', type = ''DIV'', value' = ''=B1/C1'',
       proposed = Some ''=IFERROR(B1/C1, 0)'', reason = Some ''Encapsulado com IFERROR'',
       sheet = Some ''S'', severity = Some critical\<rparr>,
      \<lparr>row = 2, col = ''C'', type = ''VALUE'', value' = ''=A2+1'',
       proposed = Some ''=IFERROR(A2+1, 0)'', reason = Some ''Encapsulado com IFERROR'',
       sheet = Some ''Gone'', severity = Some warning\<rparr>,
      \<lparr>row = 3, col = ''A'', type = ''VALUE'', value' = ''=A1+A2'',
       proposed = Some ''=IFERROR(A1+A2, 0)'', reason = Some ''Encapsulado com IFERROR'',
       sheet = Some ''S'', severity = Some warning\<rparr>]"

text \<open>One sheet whose only cell A1 holds the text of a broken reference.\<close>

definition wbRef :: workbook where
  "wbRef =
     \<lparr>SheetNames = [''S''],
      Sheets = [''S'' \<mapsto>
        \<lparr>cells = [''A1'' \<mapsto> \<lparr>cell_v = Some (VStr ''#REF!''), cell_f = None, cell_t = ''s''\<rparr>],
         ref = Some \<lparr>s_r = 0, s_c = 0, e_r = 0, e_c = 0\<rparr>,
         merges = None\<rparr>]\<rparr>"

text \<open>One sheet whose cells A1 and B1 both hold the text of a broken reference.\<close>

definition wbTwoRefs :: workbook where
  "wbTwoRefs =
     \<lparr>SheetNames = [''S''],
      Sheets = [''S'' \<mapsto>
        \<lparr>cells = [''A1'' \<mapsto> \<lparr>cell_v = Some (VStr ''#REF!''), cell_f = None, cell_t = ''s''\<rparr>,
                  ''B1'' \<mapsto> \<lparr>cell_v = Some (VStr ''#REF!''), cell_f = None, cell_t = ''s''\<rparr>],
         ref = Some \<lparr>s_r = 0, s_c = 0, e_r = 0, e_c = 1\<rparr>,
         merges = None\<rparr>]\<rparr>"

text \<open>A column with numbers in A1 and A3 and no cell at A2; the range is A1:A3.\<close>

definition wsGap :: worksheet where
  "wsGap =
     \<lparr>cells = [''A1'' \<mapsto> \<lparr>cell_v = Some (VNum ''1''), cell_f = None, cell_t = ''n''\<rparr>,
               ''A3'' \<mapsto> \<lparr>cell_v = Some (VNum ''2''), cell_f = None, cell_t = ''n''\<rparr>],
      ref = Some \<lparr>s_r = 0, s_c = 0, e_r = 2, e_c = 0\<rparr>,
      merges = None\<rparr>"

definition wbGap :: workbook where
  "wbGap = \<lparr>SheetNames = [''S''], Sheets = [''S'' \<mapsto> wsGap]\<rparr>"

text \<open>
  Two cells A1 and B1 with the native error tag, the text of a broken reference and the
  same lookup formula of three arguments.
\<close>

definition lookupFormula :: string where
  "lookupFormula = ''VLOOKUP(A2,B:C,5)''"

definition cellLookup :: cell where
  "cellLookup = \<lparr>cell_v = Some (VStr ''#REF!''), cell_f = Some lookupFormula, cell_t = ''e''\<rparr>"

definition wsLookup :: worksheet where
  "wsLookup =
     \<lparr>cells = [''A1'' \<mapsto> cellLookup, ''B1'' \<mapsto> cellLookup],
      ref = Some \<lparr>s_r = 0, s_c = 0, e_r = 0, e_c = 1\<rparr>,
      merges = None\<rparr>"

definition wbLookup :: workbook where
  "wbLookup = \<lparr>SheetNames = [''S''], Sheets = [''S'' \<mapsto> wsLookup]\<rparr>"

definition refError :: ErrorDetail where
  "refError =
     \<lparr>row = 1, col = ''A'', type = ''REF'', value' = ''='' @ lookupFormula,
      proposed = None, reason = None, sheet = Some ''S'', severity = Some critical\<rparr>"

text \<open>
  Six nested conditionals around a short sum (55 characters) and around a sum of 251
  terms (555 characters).
\<close>

definition sixIfs :: string where
  "sixIfs = concat (replicate 6 ''IF(A1>0,'') @ ''1'' @ replicate 6 (CHR '')'')"

definition longIfs :: string where
  "longIfs = concat (replicate 6 ''IF(A1>0,'') @ concat (replicate 250 ''1+'') @ ''1'' @ replicate 6 (CHR '')'')"

text \<open>
  A finding with a proposal for the cell C2 of a sheet named \<open>constructor\<close>, which
  \<open>wbPatch\<close> does not have.
\<close>

definition errsInherited :: "ErrorDetail list" where
  "errsInherited =
     [\<lparr>row = 2, col = ''C'', type = ''VALUE'', value' = ''=A2+1'',
       proposed = Some ''=IFERROR(A2+1, 0)'', reason = Some ''Encapsulado com IFERROR'',
       sheet = Some ''constructor'', severity = Some warning\<rparr>]"

text \<open>
  Two findings with a proposal for the address C2: the first under the sheet name
  \<open>__proto__\<close>, the second for the sheet \<open>S\<close> of \<open>wbPatch\<close>, which has no cell C2.
\<close>

definition errsProto :: "ErrorDetail list" where
  "errsProto =
     [\<lparr>row = 2, col = ''C'', type = ''VALUE'', value' = ''=A2+1'',
       proposed = Some ''=IFERROR(A2+1, 0)'', reason = Some ''Encapsulado com IFERROR'',
       sheet = Some ''__proto__'', severity = Some warning\<rparr>,
      \<lparr>row = 2, col = ''C'', type = ''DIV'', value' = ''=B1/C1'',
       proposed = Some ''=IFERROR(B1/C1, 0)'', reason = Some ''Encapsulado com IFERROR'',
       sheet = Some ''S'', severity = Some critical\<rparr>]"

section \<open>Properties of the patch applier\<close>

lemma applyFix_SheetNames: "SheetNames (fst (applyFix err (wb, l, out))) = SheetNames wb"
  by (simp add: applyFix_def Let_def split: option.splits sheet_target.splits)

lemma applyFix_sheet_present:
  "(Sheets (fst (applyFix err (wb, l, out))) n = None) = (Sheets wb n = None)"
  by (auto simp: applyFix_def Let_def resolveSheet_def split: option.splits sheet_target.splits if_splits)

lemma applyFix_frame:
  "\<not> hits wb err sn a \<Longrightarrow> cellAt (fst (applyFix err (wb, l, out))) sn a = cellAt wb sn a"
  by (auto simp: applyFix_def hits_def cellAt_def nonEmptyOpt_def Let_def resolveSheet_def
           split: option.splits sheet_target.splits if_splits)



lemma applyFix_missing:
  assumes "nonEmptyOpt (proposed err)" "resolveSheet wb out (targetSheet wb err) = NoSheet"
  shows "applyFix err (wb, l, out) = (wb, l @ [missingSheetWarning (targetSheet wb err)], out)"
  using assms by (auto simp: applyFix_def nonEmptyOpt_def Let_def split: option.splits)

lemma loop_ok:
  "list_all (\<lambda>j. j < length errors) sel \<Longrightarrow> \<exists>st'. applyFixes_loop sel errors st = Inr st'"
  by (induction sel arbitrary: st) auto


lemma hits_cong: "SheetNames wb1 = SheetNames wb \<Longrightarrow> hits wb1 e sn a = hits wb e sn a"
  by (simp add: hits_def targetSheet_def firstSheetName_def split: option.splits)

lemma targetSheet_cong: "SheetNames wb1 = SheetNames wb \<Longrightarrow> targetSheet wb1 e = targetSheet wb e"
  by (simp add: targetSheet_def firstSheetName_def split: option.splits)


lemma loop_frame:
  "applyFixes_loop sel errors (wb, l, out) = Inr (wb', l', out') \<Longrightarrow>
   list_all (\<lambda>j. \<not> hits wb (errors ! j) sn a) sel \<Longrightarrow> cellAt wb' sn a = cellAt wb sn a"
proof (induction sel arbitrary: wb l out)
  case Nil then show ?case by simp
next
  case (Cons i sel)
  from Cons.prems have v: "i < length errors" by (simp split: if_splits)
  obtain wb1 l1 out1 where s: "applyFix (errors ! i) (wb, l, out) = (wb1, l1, out1)"
    by (cases "applyFix (errors ! i) (wb, l, out)") auto
  from Cons.prems v s have r: "applyFixes_loop sel errors (wb1, l1, out1) = Inr (wb', l', out')" by simp
  have n: "SheetNames wb1 = SheetNames wb" using applyFix_SheetNames[of "errors ! i" wb l out] s by simp
  have "list_all (\<lambda>j. \<not> hits wb1 (errors ! j) sn a) sel"
    using Cons.prems(2) hits_cong[OF n] by (simp add: list_all_iff)
  from Cons.IH[OF r this] have "cellAt wb' sn a = cellAt wb1 sn a" .
  moreover have "cellAt wb1 sn a = cellAt wb sn a"
    using applyFix_frame[of wb "errors ! i" sn a l out] Cons.prems(2) s by simp
  ultimately show ?case by simp
qed


lemma applyFixes_result:
  "applyFixes_loop sel errors (wb, [], noOutside) = Inr (wb', l', out') \<Longrightarrow>
     applyFixes wb sel errors = Inr (wb', l')"
  by (simp add: applyFixes_def applyFixes_run_def)




text \<open>
  The condition on the name \<open>__proto__\<close> cannot be dropped. With the two findings of
  \<open>errsProto\<close> accepted in order, the first stores a cell under C2 on
  \<open>Object.prototype\<close>; the second, for the sheet \<open>S\<close>, finds that inherited cell and
  changes it, and \<open>S\<close> gets no cell C2 of its own.
\<close>

lemma inherited_cell_takes_fix:
  "resultCell (applyFixes wbPatch [0, 1] errsProto) ''S'' ''C2'' = None
   \<and> outsideCell (applyFixes_run wbPatch [0, 1] errsProto) ''__proto__'' ''C2'' =
       Some \<lparr>cell_v = None, cell_f = Some ''IFERROR(B1/C1, 0)'', cell_t = ''n''\<rparr>"
  by code_simp

text \<open>
  When every accepted index is a position of the finding sequence and no accepted
  finding targets a name that plain objects inherit, the patch succeeds, every accepted
  finding with a proposal for a sheet that the workbook does not have adds one warning
  and changes nothing, and the patched workbook is the one obtained from the other
  accepted indices alone.
\<close>

lemma missingTarget_cong:
  "SheetNames wb1 = SheetNames wb \<Longrightarrow> \<forall>n. (Sheets wb1 n = None) = (Sheets wb n = None) \<Longrightarrow>
     missingTarget wb1 e = missingTarget wb e"
  using targetSheet_cong[of wb1 wb e] by (simp add: missingTarget_def)

lemma applyFix_plain_missing:
  assumes "missingTarget wb err" "targetSheet wb err \<notin> set inheritedNames" "out ''__proto__'' = Map.empty"
  shows "applyFix err (wb, l, out) = (wb, l @ [missingSheetWarning (targetSheet wb err)], out)"
  using assms
  by (intro applyFix_missing) (auto simp: missingTarget_def resolveSheet_def)

lemma applyFix_plain_other:
  assumes "\<not> missingTarget wb err" "targetSheet wb err \<notin> set inheritedNames" "out ''__proto__'' = Map.empty"
  shows "snd (applyFix err (wb, l, out)) = (l, out)"
    and "fst (applyFix err (wb, l, out)) = fst (applyFix err (wb, l2, out))"
  using assms
  by (auto simp: applyFix_def missingTarget_def nonEmptyOpt_def Let_def resolveSheet_def
           split: option.splits sheet_target.splits if_splits)

lemma loop_skip:
  assumes "list_all (\<lambda>j. j < length errors) sel"
      and "list_all (\<lambda>j. targetSheet wb0 (errors ! j) \<notin> set inheritedNames) sel"
      and "SheetNames wb = SheetNames wb0"
      and "\<forall>n. (Sheets wb n = None) = (Sheets wb0 n = None)"
      and "out ''__proto__'' = Map.empty"
  shows "\<exists>wb' l3.
           applyFixes_loop sel errors (wb, l, out) =
             Inr (wb', l @ map (\<lambda>j. missingSheetWarning (targetSheet wb0 (errors ! j)))
                             (filter (\<lambda>j. missingTarget wb0 (errors ! j)) sel), out)
         \<and> applyFixes_loop (filter (\<lambda>j. \<not> missingTarget wb0 (errors ! j)) sel) errors (wb, l2, out)
             = Inr (wb', l3, out)"
  using assms
proof (induction sel arbitrary: wb l l2)
  case Nil
  then show ?case by simp
next
  case (Cons i sel)
  from Cons.prems(1) have v: "i < length errors" and vs: "list_all (\<lambda>j. j < length errors) sel" by simp_all
  from Cons.prems(2) have ni0: "targetSheet wb0 (errors ! i) \<notin> set inheritedNames"
    and nis: "list_all (\<lambda>j. targetSheet wb0 (errors ! j) \<notin> set inheritedNames) sel" by simp_all
  have m: "missingTarget wb (errors ! i) = missingTarget wb0 (errors ! i)"
    using missingTarget_cong Cons.prems(3,4) by blast
  have t: "targetSheet wb (errors ! i) = targetSheet wb0 (errors ! i)"
    using targetSheet_cong Cons.prems(3) by blast
  from ni0 t have ni: "targetSheet wb (errors ! i) \<notin> set inheritedNames" by simp
  show ?case
  proof (cases "missingTarget wb0 (errors ! i)")
    case True
    with m have mw: "missingTarget wb (errors ! i)" by simp
    have "applyFix (errors ! i) (wb, l, out) = (wb, l @ [missingSheetWarning (targetSheet wb0 (errors ! i))], out)"
      using applyFix_plain_missing[of wb "errors ! i" out l] mw ni Cons.prems(5) t by simp
    with Cons.IH[OF vs nis Cons.prems(3,4,5), of "l @ [missingSheetWarning (targetSheet wb0 (errors ! i))]" l2] True v
    show ?thesis by simp
  next
    case False
    with m have nm: "\<not> missingTarget wb (errors ! i)" by simp
    obtain wb1 l1 out1 where s: "applyFix (errors ! i) (wb, l, out) = (wb1, l1, out1)"
      by (cases "applyFix (errors ! i) (wb, l, out)") auto
    have l1: "l1 = l" "out1 = out"
      using applyFix_plain_other(1)[of wb "errors ! i" out l] nm ni Cons.prems(5) s by simp_all
    obtain wb2 l4 out4 where s2: "applyFix (errors ! i) (wb, l2, out) = (wb2, l4, out4)"
      by (cases "applyFix (errors ! i) (wb, l2, out)") auto
    have l4: "l4 = l2" "out4 = out"
      using applyFix_plain_other(1)[of wb "errors ! i" out l2] nm ni Cons.prems(5) s2 by simp_all
    have w: "wb2 = wb1"
      using applyFix_plain_other(2)[of wb "errors ! i" out l l2] nm ni Cons.prems(5) s s2 by simp
    have n1: "SheetNames wb1 = SheetNames wb0"
      using applyFix_SheetNames[of "errors ! i" wb l out] s Cons.prems(3) by simp
    have p1: "\<forall>n. (Sheets wb1 n = None) = (Sheets wb0 n = None)"
      using applyFix_sheet_present[of "errors ! i" wb l out] s Cons.prems(4) by simp
    from Cons.IH[OF vs nis n1 p1 Cons.prems(5), of l l2] False v s s2 l1 l4 w show ?thesis by simp
  qed
qed

lemma missing_sheets_only_warn:
  assumes "list_all (\<lambda>j. j < length errors) selectedFixes"
      and "list_all (\<lambda>j. targetSheet wb (errors ! j) \<notin> set inheritedNames) selectedFixes"
  shows "\<exists>wb'. applyFixes wb selectedFixes errors =
                  Inr (wb', map (\<lambda>j. missingSheetWarning (targetSheet wb (errors ! j)))
                              (filter (\<lambda>j. missingTarget wb (errors ! j)) selectedFixes))
              \<and> patchedWorkbook (applyFixes wb (filter (\<lambda>j. \<not> missingTarget wb (errors ! j)) selectedFixes) errors)
                  = Some wb'"
proof -
  have e: "noOutside ''__proto__'' = Map.empty" by (simp add: noOutside_def)
  from loop_skip[of errors selectedFixes wb wb noOutside "[]" "[]"] assms e obtain wb' l3 where
    a: "applyFixes_loop selectedFixes errors (wb, [], noOutside) =
       Inr (wb', [] @ map (\<lambda>j. missingSheetWarning (targetSheet wb (errors ! j)))
                       (filter (\<lambda>j. missingTarget wb (errors ! j)) selectedFixes), noOutside)"
    and b: "applyFixes_loop (filter (\<lambda>j. \<not> missingTarget wb (errors ! j)) selectedFixes) errors (wb, [], noOutside)
          = Inr (wb', l3, noOutside)"
    by auto
  from applyFixes_result[OF a] applyFixes_result[OF b] show ?thesis
    by (auto simp: patchedWorkbook_def)
qed

text \<open>
  C8. The sheet name \<open>constructor\<close> is not a sheet of \<open>wbPatch\<close>, but
  \<open>workbook.Sheets['constructor']\<close> is the inherited constructor of plain objects and is
  truthy. The accepted finding of \<open>errsInherited\<close> is not skipped and no warning is
  written: the cell is stored on that built-in object. A finding for the name \<open>Gone\<close>,
  which nothing inherits, is skipped with the warning.
\<close>

theorem inherited_sheet_name_not_skipped:
  "Sheets wbPatch ''constructor'' = None
   \<and> runWarnings (applyFixes_run wbPatch [0] errsInherited) = []
   \<and> outsideCell (applyFixes_run wbPatch [0] errsInherited) ''constructor'' ''C2'' =
       Some \<lparr>cell_v = None, cell_f = Some ''IFERROR(A2+1, 0)'', cell_t = ''n''\<rparr>
   \<and> runWarnings (applyFixes_run wbPatch [1] errsPatch) = [missingSheetWarning ''Gone'']"
  by code_simp

text \<open>
  C10. When the patch succeeds (every accepted index is a position of the finding
  sequence), a cell that no accepted finding with a proposal addresses is the same in
  the patched workbook as before: unchanged if it existed, still absent if it did not.
\<close>

theorem applyFixes_frame:
  assumes "list_all (\<lambda>j. j < length errors) selectedFixes"
      and "list_all (\<lambda>j. \<not> hits wb (errors ! j) sheetName a) selectedFixes"
  shows "resultCell (applyFixes wb selectedFixes errors) sheetName a = cellAt wb sheetName a"
proof -
  from loop_ok [OF assms(1), of "(wb, [], noOutside)"] obtain wb' l' out' where
    s: "applyFixes_loop selectedFixes errors (wb, [], noOutside) = Inr (wb', l', out')" by (metis surj_pair)
  from loop_frame [OF s assms(2)] applyFixes_result [OF s] show ?thesis
    by (simp add: resultCell_def patchedWorkbook_def)
qed

theorem applyFixes_frame_witness:
  "list_all (\<lambda>j. j < length errsPatch) [1, 0]
   \<and> list_all (\<lambda>j. \<not> hits wbPatch (errsPatch ! j) ''S'' ''B1'') [1, 0]
   \<and> resultCell (applyFixes wbPatch [1, 0] errsPatch) ''S'' ''B1'' =
       Some \<lparr>cell_v = Some (VNum ''4''), cell_f = None, cell_t = ''n''\<rparr>"
proof -
  have v: "list_all (\<lambda>j. j < length errsPatch) [1, 0]" by code_simp
  have h: "list_all (\<lambda>j. \<not> hits wbPatch (errsPatch ! j) ''S'' ''B1'') [1, 0]"
    by code_simp
  have c: "cellAt wbPatch ''S'' ''B1'' = Some \<lparr>cell_v = Some (VNum ''4''), cell_f = None, cell_t = ''n''\<rparr>"
    by code_simp
  from applyFixes_frame [OF v h] v h c show ?thesis by simp
qed

section \<open>Column labels\<close>

lemma distinct_asciiUpper: "distinct asciiUpper"
  by (simp add: asciiUpper_def)

lemma col_letter_inj: "col_letter a = col_letter b \<Longrightarrow> a mod 26 = b mod 26"
proof -
  assume h: "col_letter a = col_letter b"
  have la: "a mod 26 < length asciiUpper" and lb: "b mod 26 < length asciiUpper"
    by (simp_all add: asciiUpper_def)
  from h have "asciiUpper ! (a mod 26) = asciiUpper ! (b mod 26)" by (simp add: col_letter_def)
  with nth_eq_iff_index_eq [OF distinct_asciiUpper la lb] show ?thesis by simp
qed

lemma encode_col_length: "length (encode_col n) = (if n < 26 then 1 else Suc (length (encode_col (n div 26 - 1))))"
  by (subst encode_col.simps) simp

lemma encode_col_nonempty: "encode_col n \<noteq> []"
  by (subst encode_col.simps) simp

lemma encode_col_inj: "encode_col a = encode_col b \<Longrightarrow> a = b"
proof (induction a arbitrary: b rule: encode_col.induct)
  case (1 n)
  show ?case
  proof (cases "n < 26")
    case True
    note nlt = True
    show ?thesis
    proof (cases "b < 26")
      case True
      from "1.prems" nlt True have "col_letter n = col_letter b"
        by (subst (asm) encode_col.simps, subst (asm) (2) encode_col.simps) simp
      from col_letter_inj [OF this] nlt True show ?thesis by simp
    next
      case False
      have "length (encode_col n) = 1" using nlt by (subst encode_col_length) simp
      moreover have "length (encode_col b) \<ge> 2"
        using False encode_col_nonempty [of "b div 26 - 1"]
        by (subst encode_col_length) (simp add: Suc_le_eq)
      ultimately show ?thesis using "1.prems" by simp
    qed
  next
    case False
    note nge = False
    show ?thesis
    proof (cases "b < 26")
      case True
      have "length (encode_col b) = 1" using True by (subst encode_col_length) simp
      moreover have "length (encode_col n) \<ge> 2"
        using nge encode_col_nonempty [of "n div 26 - 1"]
        by (subst encode_col_length) (simp add: Suc_le_eq)
      ultimately show ?thesis using "1.prems" by simp
    next
      case False
      have en: "encode_col n = encode_col (n div 26 - 1) @ [col_letter n]"
        using nge by (subst encode_col.simps) simp
      have eb: "encode_col b = encode_col (b div 26 - 1) @ [col_letter b]"
        using False by (subst encode_col.simps) simp
      from "1.prems" en eb have p: "encode_col (n div 26 - 1) = encode_col (b div 26 - 1)"
        and l: "col_letter n = col_letter b" by simp_all
      from "1.IH" [OF nge p] have "n div 26 - 1 = b div 26 - 1" .
      moreover have "n div 26 \<ge> 1" "b div 26 \<ge> 1" using nge False by simp_all
      ultimately have d: "n div 26 = b div 26" by simp
      from col_letter_inj [OF l] have m: "n mod 26 = b mod 26" .
      from d m show ?thesis by (metis div_mult_mod_eq)
    qed
  qed
qed

section \<open>Properties of the findings\<close>

lemma string_of_nat_nonempty: "string_of_nat n \<noteq> []"
  by (subst string_of_nat.simps) simp

lemma nameFix_reason: "nameFix fx f = Some (pf, pr) \<Longrightarrow> pr \<noteq> []"
  by (induction fx f rule: nameFix.induct) (auto split: if_splits)

lemma rebuildLookup_reason: "rebuildLookup f rg = Some (pf, pr) \<Longrightarrow> pr \<noteq> []"
  by (auto simp: rebuildLookup_def refReason_def Let_def split: option.splits if_splits)

lemma propose_reason:
  assumes "proposeFixForError st err f rg = (Some (pf, pr), st')"
  shows "pr \<noteq> []"
proof -
  obtain b s1 where l: "(if type err = ''REF'' then lookupTest st (toUpperCase f) else (False, st)) = (b, s1)"
    by (cases "(if type err = ''REF'' then lookupTest st (toUpperCase f) else (False, st))")
  from assms have ne: "f \<noteq> []" by (auto simp: proposeFixForError_def)
  show ?thesis
  proof (cases "if b then rebuildLookup f rg else None")
    case (Some p)
    with assms ne l have "p = (pf, pr)" by (simp add: proposeFixForError_def Let_def)
    with Some show ?thesis using rebuildLookup_reason by (auto split: if_splits)
  next
    case None
    note n1 = None
    show ?thesis
    proof (cases "type err = ''VALUE''")
      case True
      with assms ne l n1 show ?thesis by (auto simp: proposeFixForError_def Let_def)
    next
      case False
      note nv = False
      show ?thesis
      proof (cases "if type err = ''NAME'' then nameFix commonFixes f else None")
        case (Some p)
        with assms ne l n1 nv have "p = (pf, pr)" by (simp add: proposeFixForError_def Let_def)
        with Some show ?thesis using nameFix_reason by (auto split: if_splits)
      next
        case None
        with assms ne l n1 nv show ?thesis
          by (auto simp: proposeFixForError_def Let_def split: if_splits)
      qed
    qed
  qed
qed

lemma errorFinding_props:
  "row (fst (errorFinding st k v f sn rg R C)) = R + 1
   \<and> col (fst (errorFinding st k v f sn rg R C)) = encode_col C
   \<and> type (fst (errorFinding st k v f sn rg R C)) = k
   \<and> okFinding (fst (errorFinding st k v f sn rg R C))"
proof (cases "proposeFixForError st \<lparr>row = R + 1, col = encode_col C, type = k,
                 value' = (if f \<noteq> [] then ''='' @ f else v),
                 proposed = None, reason = None,
                 sheet = Some sn,
                 severity = Some (if k = ''REF'' \<or> k = ''DIV'' then critical else warning)\<rparr> f rg")
  case (Pair po st')
  show ?thesis
  proof (cases po)
    case None
    with Pair show ?thesis by (simp add: errorFinding_def okFinding_def nonEmptyOpt_def Let_def)
  next
    case (Some pp)
    obtain pf pr where pp: "pp = (pf, pr)" by (cases pp)
    with Pair Some have "pr \<noteq> []" using propose_reason by blast
    with Pair Some pp show ?thesis by (simp add: errorFinding_def okFinding_def nonEmptyOpt_def Let_def)
  qed
qed

text \<open>An error finding is critical for the kinds \<open>REF\<close> and \<open>DIV\<close> and a warning otherwise.\<close>

lemma errorFinding_severity:
  "severity (fst (errorFinding st k v f sn rg R C)) =
     Some (if k = ''REF'' \<or> k = ''DIV'' then critical else warning)"
proof (cases "proposeFixForError st \<lparr>row = R + 1, col = encode_col C, type = k,
                 value' = (if f \<noteq> [] then ''='' @ f else v),
                 proposed = None, reason = None,
                 sheet = Some sn,
                 severity = Some (if k = ''REF'' \<or> k = ''DIV'' then critical else warning)\<rparr> f rg")
  case (Pair po st')
  show ?thesis
  proof (cases po)
    case None
    with Pair show ?thesis by (simp add: errorFinding_def Let_def)
  next
    case (Some pp)
    obtain pf pr where pp: "pp = (pf, pr)" by (cases pp)
    with Pair Some show ?thesis by (simp add: errorFinding_def Let_def)
  qed
qed

lemma detectFormulaIssues_props:
  "fst (detectFormulaIssues st f sn r c) = Some e \<Longrightarrow>
     row e = r + 1 \<and> col e = encode_col c \<and> nonEmptyOpt (reason e)"
  unfolding detectFormulaIssues_def Let_def
  by (auto simp: nonEmptyOpt_def string_of_nat_nonempty split: if_splits prod.splits)

lemma detectEmptyGaps_props:
  "detectEmptyGaps ws r c rg sn = Some e \<Longrightarrow>
     row e = r + 1 \<and> col e = encode_col c \<and> nonEmptyOpt (reason e)"
  unfolding detectEmptyGaps_def Let_def
  by (auto simp: nonEmptyOpt_def split: if_splits)

lemma validateDataType_props:
  "validateDataType x r c sn ws rg = Some e \<Longrightarrow>
     row e = r + 1 \<and> col e = encode_col c \<and> nonEmptyOpt (reason e)"
  unfolding validateDataType_def Let_def
  by (auto simp: nonEmptyOpt_def split: if_splits)

lemma okFinding_reason: "nonEmptyOpt (reason e) \<Longrightarrow> okFinding e"
  by (simp add: okFinding_def)

lemma scanCell_native:
  assumes "cell_t x = ''e''" "e \<in> set (fst (scanCell st ws rg sn R C x))"
  shows "e = fst (errorFinding st (nativeErrorType (toUpperCase (valueString x)))
                    (valueString x) (formulaString x) sn rg R C)"
  using assms by (simp add: scanCell_def Let_def split: prod.splits)

lemma scanCell_other:
  assumes "cell_t x \<noteq> ''e''" "e \<in> set (fst (scanCell st ws rg sn R C x))"
  shows "(\<exists>st' k. e = fst (errorFinding st' k (valueString x) (formulaString x) sn rg R C))
       \<or> (\<exists>st'. fst (detectFormulaIssues st' (formulaString x) sn R C) = Some e)
       \<or> validateDataType x R C sn ws rg = Some e
       \<or> detectEmptyGaps ws R C rg sn = Some e"
proof -
  obtain hit st1 where m: "matchErrorPatterns ERROR_PATTERNS st (valueString x) (formulaString x) = (hit, st1)"
    by (cases "matchErrorPatterns ERROR_PATTERNS st (valueString x) (formulaString x)")
  obtain errs1 st2 where h: "(case hit of
                      None \<Rightarrow> ([], st1)
                    | Some errorType \<Rightarrow>
                        (case errorFinding st1 errorType (valueString x) (formulaString x) sn rg R C of
                           (e, st') \<Rightarrow> ([e], st'))) = (errs1, st2)"
    by (cases "(case hit of
                      None \<Rightarrow> ([], st1)
                    | Some errorType \<Rightarrow>
                        (case errorFinding st1 errorType (valueString x) (formulaString x) sn rg R C of
                           (e, st') \<Rightarrow> ([e], st')))")
  obtain fi st3 where d: "(if formulaString x \<noteq> [] then detectFormulaIssues st2 (formulaString x) sn R C
                         else (None, st2)) = (fi, st3)"
    by (cases "(if formulaString x \<noteq> [] then detectFormulaIssues st2 (formulaString x) sn R C
                         else (None, st2))")
  from assms m h d have mem: "e \<in> set errs1 \<or> e \<in> set (opt_list fi)
      \<or> e \<in> set (opt_list (if valueString x \<noteq> [] \<and> formulaString x = []
                                      then validateDataType x R C sn ws rg else None))
      \<or> e \<in> set (opt_list (detectEmptyGaps ws R C rg sn))"
    by (auto simp: scanCell_def Let_def)
  have e1: "e \<in> set errs1 \<Longrightarrow> \<exists>st' k. e = fst (errorFinding st' k (valueString x) (formulaString x) sn rg R C)"
    using h by (cases hit) (auto split: prod.splits, metis fst_conv)
  have e2: "e \<in> set (opt_list fi) \<Longrightarrow> \<exists>st'. fst (detectFormulaIssues st' (formulaString x) sn R C) = Some e"
    using d by (auto simp: opt_list_def split: if_splits option.splits, metis fst_conv)
  have e3: "e \<in> set (opt_list (if valueString x \<noteq> [] \<and> formulaString x = []
                                      then validateDataType x R C sn ws rg else None))
            \<Longrightarrow> validateDataType x R C sn ws rg = Some e"
    by (auto simp: opt_list_def split: if_splits option.splits)
  have e4: "e \<in> set (opt_list (detectEmptyGaps ws R C rg sn)) \<Longrightarrow> detectEmptyGaps ws R C rg sn = Some e"
    by (auto simp: opt_list_def split: option.splits)
  from mem e1 e2 e3 e4 show ?thesis by blast
qed

lemma scanCell_props:
  assumes "e \<in> set (fst (scanCell st ws rg sn R C x))"
  shows "row e = R + 1 \<and> col e = encode_col C \<and> okFinding e"
proof (cases "cell_t x = ''e''")
  case True
  from scanCell_native [OF True assms] show ?thesis using errorFinding_props by simp
next
  case False
  from scanCell_other [OF False assms] consider
      (a) st' k where "e = fst (errorFinding st' k (valueString x) (formulaString x) sn rg R C)"
    | (b) st' where "fst (detectFormulaIssues st' (formulaString x) sn R C) = Some e"
    | (c) "validateDataType x R C sn ws rg = Some e"
    | (d) "detectEmptyGaps ws R C rg sn = Some e" by blast
  then show ?thesis
  proof cases
    case a
    then show ?thesis using errorFinding_props by simp
  next
    case b
    from detectFormulaIssues_props [OF b] show ?thesis by (simp add: okFinding_reason)
  next
    case c
    from validateDataType_props [OF c] show ?thesis by (simp add: okFinding_reason)
  next
    case d
    from detectEmptyGaps_props [OF d] show ?thesis by (simp add: okFinding_reason)
  qed
qed

lemma scanCells_mem:
  "e \<in> set (fst (scanCells ws rg sn ps (errs, st, cv))) \<Longrightarrow>
     e \<in> set errs \<or>
     (\<exists>R C x st'. (R, C) \<in> set ps \<and> cells ws (encode_cell R C) = Some x
                  \<and> e \<in> set (fst (scanCell st' ws rg sn R C x)))"
proof (induction ps arbitrary: errs st cv)
  case Nil
  then show ?case by simp
next
  case (Cons p ps)
  obtain R C where p: "p = (R, C)" by (cases p)
  show ?case
  proof (cases "cells ws (encode_cell R C)")
    case None
    with Cons.prems p have "e \<in> set (fst (scanCells ws rg sn ps (errs, st, cv)))" by simp
    from Cons.IH [OF this] show ?thesis by auto
  next
    case (Some x)
    obtain new st' where s: "scanCell st ws rg sn R C x = (new, st')" by (cases "scanCell st ws rg sn R C x")
    with Cons.prems p Some have
      "e \<in> set (fst (scanCells ws rg sn ps (errs @ new, st', collectValue cv R C x)))" by simp
    from Cons.IH [OF this] have "e \<in> set errs \<or> e \<in> set new \<or>
       (\<exists>R C x st'. (R, C) \<in> set ps \<and> cells ws (encode_cell R C) = Some x
                  \<and> e \<in> set (fst (scanCell st' ws rg sn R C x)))" by auto
    moreover have "e \<in> set new \<Longrightarrow> (R, C) \<in> set (p # ps) \<and> cells ws (encode_cell R C) = Some x
                  \<and> e \<in> set (fst (scanCell st ws rg sn R C x))" using s p Some by simp
    ultimately show ?thesis by (metis list.set_intros(2))
  qed
qed

lemma duplicateFindings_reason:
  "e \<in> set (duplicateFindings cv sn) \<Longrightarrow> nonEmptyOpt (reason e)"
  by (auto simp: duplicateFindings_def nonEmptyOpt_def split: if_splits)

lemma validateMergedCell_reason:
  "validateMergedCell m sn ws = Some e \<Longrightarrow> nonEmptyOpt (reason e)"
  unfolding validateMergedCell_def Let_def
  by (auto simp: nonEmptyOpt_def split: option.splits if_splits)

lemma crossSheetCell_reason:
  "e \<in> set (crossSheetCell wb sn r c f) \<Longrightarrow> nonEmptyOpt (reason e)"
  by (auto simp: crossSheetCell_def nonEmptyOpt_def split: if_splits)

lemma validateCrossSheetReferences_reason:
  "e \<in> set (validateCrossSheetReferences ws sn wb rg) \<Longrightarrow> nonEmptyOpt (reason e)"
  by (auto simp: validateCrossSheetReferences_def split: option.splits if_splits
           dest: crossSheetCell_reason)

lemma formatColumn_reason:
  "e \<in> set (formatColumn ws sn rg c) \<Longrightarrow> nonEmptyOpt (reason e)"
  unfolding formatColumn_def Let_def
  by (auto simp: nonEmptyOpt_def split: if_splits)

lemma detectFormatInconsistencies_reason:
  "e \<in> set (detectFormatInconsistencies ws sn rg) \<Longrightarrow> nonEmptyOpt (reason e)"
  by (auto simp: detectFormatInconsistencies_def dest: formatColumn_reason)

lemma analyzeSheet_ok:
  assumes "e \<in> set (fst (analyzeSheet wb sn ws st))"
  shows "okFinding e"
proof -
  obtain errs st' cv where
    s: "scanCells ws (sheet_range ws) sn (positions (sheet_range ws)) ([], st, []) = (errs, st', cv)"
    by (cases "scanCells ws (sheet_range ws) sn (positions (sheet_range ws)) ([], st, [])") auto
  from assms s have "e \<in> set errs
      \<or> e \<in> set (duplicateFindings cv sn)
      \<or> (\<exists>m. validateMergedCell m sn ws = Some e)
      \<or> e \<in> set (validateCrossSheetReferences ws sn wb (sheet_range ws))
      \<or> e \<in> set (detectFormatInconsistencies ws sn (sheet_range ws))"
    by (auto simp: analyzeSheet_def Let_def opt_list_def split: option.splits)
  then consider
      (a) "e \<in> set errs"
    | (b) "e \<in> set (duplicateFindings cv sn)"
    | (c) m where "validateMergedCell m sn ws = Some e"
    | (d) "e \<in> set (validateCrossSheetReferences ws sn wb (sheet_range ws))"
    | (f) "e \<in> set (detectFormatInconsistencies ws sn (sheet_range ws))" by blast
  then show ?thesis
  proof cases
    case a
    with s have "e \<in> set (fst (scanCells ws (sheet_range ws) sn (positions (sheet_range ws)) ([], st, [])))"
      by simp
    from scanCells_mem [OF this] obtain R C x s' where
      "e \<in> set (fst (scanCell s' ws (sheet_range ws) sn R C x))" by auto
    from scanCell_props [OF this] show ?thesis by simp
  next
    case b
    then show ?thesis by (simp add: duplicateFindings_reason okFinding_reason)
  next
    case c
    then show ?thesis by (simp add: validateMergedCell_reason okFinding_reason)
  next
    case d
    then show ?thesis by (simp add: validateCrossSheetReferences_reason okFinding_reason)
  next
    case f
    then show ?thesis by (simp add: detectFormatInconsistencies_reason okFinding_reason)
  qed
qed

lemma analyzeSheets_ok:
  "e \<in> set (fst (analyzeSheets wb ns st)) \<Longrightarrow> okFinding e"
proof (induction ns arbitrary: st)
  case Nil
  then show ?case by simp
next
  case (Cons n ns)
  show ?case
  proof (cases "Sheets wb n")
    case None
    with Cons show ?thesis by simp
  next
    case (Some ws)
    obtain e1 st1 where a: "analyzeSheet wb n ws st = (e1, st1)" by (cases "analyzeSheet wb n ws st")
    obtain e2 st2 where b: "analyzeSheets wb ns st1 = (e2, st2)" by (cases "analyzeSheets wb ns st1")
    from Cons.prems Some a b have "e \<in> set e1 \<or> e \<in> set e2" by simp
    then show ?thesis
    proof
      assume "e \<in> set e1"
      with a have "e \<in> set (fst (analyzeSheet wb n ws st))" by simp
      then show ?thesis by (rule analyzeSheet_ok)
    next
      assume "e \<in> set e2"
      with b have "e \<in> set (fst (analyzeSheets wb ns st1))" by simp
      then show ?thesis by (rule Cons.IH)
    qed
  qed
qed

text \<open>
  C6. Every finding returned by \<open>analyzeExcelFile\<close>, from any state of the module,
  whose \<open>proposed\<close> field is present and not empty has a \<open>reason\<close> field that is
  present and not empty.
\<close>

theorem proposal_has_reason:
  assumes "e \<in> set (fst (analyzeExcelFile st wb selectedSheets))"
      and "nonEmptyOpt (proposed e)"
  shows "nonEmptyOpt (reason e)"
proof -
  from assms(1) have "okFinding e"
    by (simp add: analyzeExcelFile_def Let_def analyzeSheets_ok)
  with assms(2) show ?thesis by (simp add: okFinding_def)
qed

theorem proposal_has_reason_witness:
  "hd (fst (analyzeExcelFile rx0 wbDiv None)) \<in> set (fst (analyzeExcelFile rx0 wbDiv None))
   \<and> nonEmptyOpt (proposed (hd (fst (analyzeExcelFile rx0 wbDiv None))))
   \<and> nonEmptyOpt (reason (hd (fst (analyzeExcelFile rx0 wbDiv None))))"
proof -
  have m: "hd (fst (analyzeExcelFile rx0 wbDiv None)) \<in> set (fst (analyzeExcelFile rx0 wbDiv None))"
    by code_simp
  have p: "nonEmptyOpt (proposed (hd (fst (analyzeExcelFile rx0 wbDiv None))))"
    by code_simp
  from proposal_has_reason [OF m p] m p show ?thesis by simp
qed

section \<open>Precedence of the error findings\<close>

lemma nativeErrorType_kind: "nativeErrorType u \<in> set nativeKinds"
  by (simp add: nativeErrorType_def nativeKinds_def)

lemma native_not_heuristic: "k \<in> set nativeKinds \<Longrightarrow> k \<notin> set heuristicKinds"
  by (auto simp: nativeKinds_def heuristicKinds_def)

text \<open>
  C4, as amended. For a cell with the native error tag, every finding of the cell loop
  at the position of that cell has one of the error kinds and none of the heuristic
  kinds (formula complexity, nested conditionals, unlocked lookup, type mismatch, empty
  gap).
\<close>

theorem native_error_precedence:
  assumes "cells ws (encode_cell R C) = Some x"
      and "cell_t x = ''e''"
      and "e \<in> set (firstPass ws sheetName st)"
      and "row e = R + 1"
      and "col e = encode_col C"
  shows "type e \<in> set nativeKinds \<and> type e \<notin> set heuristicKinds"
proof -
  from assms(3) have
    "e \<in> set (fst (scanCells ws (sheet_range ws) sheetName (positions (sheet_range ws)) ([], st, [])))"
    by (simp add: firstPass_def)
  from scanCells_mem [OF this] obtain R' C' x' s' where
    c: "cells ws (encode_cell R' C') = Some x'"
    and m: "e \<in> set (fst (scanCell s' ws (sheet_range ws) sheetName R' C' x'))" by auto
  from scanCell_props [OF m] assms(4,5) have "R' = R" "encode_col C' = encode_col C" by simp_all
  with encode_col_inj have "R' = R" "C' = C" by blast+
  with c assms(1) have "x' = x" by simp
  with m assms(2) \<open>R' = R\<close> \<open>C' = C\<close> scanCell_native
  have "e = fst (errorFinding s' (nativeErrorType (toUpperCase (valueString x)))
                    (valueString x) (formulaString x) sheetName (sheet_range ws) R C)" by blast
  then have "type e = nativeErrorType (toUpperCase (valueString x))"
    using errorFinding_props by simp
  then show ?thesis using nativeErrorType_kind native_not_heuristic by simp
qed

theorem native_error_precedence_witness:
  "cells wsLookup (encode_cell 0 0) = Some cellLookup
   \<and> cell_t cellLookup = ''e''
   \<and> hd (firstPass wsLookup ''S'' rx0) \<in> set (firstPass wsLookup ''S'' rx0)
   \<and> row (hd (firstPass wsLookup ''S'' rx0)) = 0 + 1
   \<and> col (hd (firstPass wsLookup ''S'' rx0)) = encode_col 0
   \<and> type (hd (firstPass wsLookup ''S'' rx0)) \<in> set nativeKinds
   \<and> type (hd (firstPass wsLookup ''S'' rx0)) \<notin> set heuristicKinds"
proof -
  have c: "cells wsLookup (encode_cell 0 0) = Some cellLookup" by code_simp
  have t: "cell_t cellLookup = ''e''" by code_simp
  have m: "hd (firstPass wsLookup ''S'' rx0) \<in> set (firstPass wsLookup ''S'' rx0)" by code_simp
  have r: "row (hd (firstPass wsLookup ''S'' rx0)) = 0 + 1" by code_simp
  have l: "col (hd (firstPass wsLookup ''S'' rx0)) = encode_col 0" by code_simp
  from native_error_precedence [OF c t m r l] c t m r l show ?thesis by simp
qed

text \<open>
  The claim C4 as stated fails after a textual signature match: the \<open>break\<close> leaves the
  loop over the error signatures only, and the heuristic checks of the cell still run.
  In \<open>wbDiv\<close> the cell A1 gets the division error finding and the unlocked-lookup
  finding.
\<close>

theorem textual_match_keeps_heuristics:
  "map type (fst (analyzeExcelFile rx0 wbDiv None)) = [''DIV'', ''VLOOKUP_NO_LOCK'']
   \<and> map row (fst (analyzeExcelFile rx0 wbDiv None)) = [1, 1]
   \<and> map col (fst (analyzeExcelFile rx0 wbDiv None)) = [''A'', ''A'']"
  by code_simp

section \<open>The formula-complexity detector\<close>

text \<open>
  C9, as amended. A formula of more than 500 characters is flagged \<open>info\<close> with the
  first 100 characters as preview, whatever else it contains; a formula of at most 500
  characters with more than five occurrences of \<open>IF(\<close> is flagged \<open>warning\<close>.
\<close>

theorem formula_complexity_flags:
  assumes "length formula > 500 \<or> ifCount (toUpperCase formula) > 5"
  shows "\<exists>e. detectFormulaIssues st formula sheetName r c = (Some e, st)
             \<and> row e = r + 1 \<and> col e = encode_col c \<and> sheet e = Some sheetName
             \<and> (if length formula > 500
                 then type e = ''COMPLEX_FORMULA'' \<and> severity e = Some info
                      \<and> value' e = ''='' @ take 100 formula @ ''...''
                 else type e = ''NESTED_IFS'' \<and> severity e = Some warning
                      \<and> value' e = ''='' @ formula)"
  using assms unfolding detectFormulaIssues_def Let_def by auto

theorem formula_complexity_flags_witness:
  "ifCount (toUpperCase sixIfs) > 5
   \<and> map_option type (fst (detectFormulaIssues rx0 sixIfs ''S'' 0 0)) = Some ''NESTED_IFS''
   \<and> map_option severity (fst (detectFormulaIssues rx0 sixIfs ''S'' 0 0)) = Some (Some warning)
   \<and> length longIfs > 500
   \<and> map_option type (fst (detectFormulaIssues rx0 longIfs ''S'' 0 0)) = Some ''COMPLEX_FORMULA''
   \<and> map_option severity (fst (detectFormulaIssues rx0 longIfs ''S'' 0 0)) = Some (Some info)"
proof -
  have a: "ifCount (toUpperCase sixIfs) > 5" by code_simp
  have a': "\<not> length sixIfs > 500" by code_simp
  have b: "length longIfs > 500" by code_simp
  from a have ha: "length sixIfs > 500 \<or> ifCount (toUpperCase sixIfs) > 5" by simp
  from b have hb: "length longIfs > 500 \<or> ifCount (toUpperCase longIfs) > 5" by simp
  from formula_complexity_flags [OF ha, of rx0 "''S''" 0 0] a'
  have 1: "map_option type (fst (detectFormulaIssues rx0 sixIfs ''S'' 0 0)) = Some ''NESTED_IFS''
           \<and> map_option severity (fst (detectFormulaIssues rx0 sixIfs ''S'' 0 0)) = Some (Some warning)"
    by auto
  from formula_complexity_flags [OF hb, of rx0 "''S''" 0 0] b
  have 2: "map_option type (fst (detectFormulaIssues rx0 longIfs ''S'' 0 0)) = Some ''COMPLEX_FORMULA''
           \<and> map_option severity (fst (detectFormulaIssues rx0 longIfs ''S'' 0 0)) = Some (Some info)"
    by auto
  from a b 1 2 show ?thesis by simp
qed

text \<open>
  The claim C9 as stated fails for a long formula with many conditionals: the length
  check returns first, and \<open>longIfs\<close>, with six conditionals, is flagged \<open>info\<close> only.
\<close>

theorem long_nested_ifs_flagged_info:
  "ifCount (toUpperCase longIfs) = 6
   \<and> length longIfs = 555
   \<and> map_option type (fst (detectFormulaIssues rx0 longIfs ''S'' 0 0)) = Some ''COMPLEX_FORMULA''
   \<and> map_option severity (fst (detectFormulaIssues rx0 longIfs ''S'' 0 0)) = Some (Some info)"
  by code_simp

section \<open>The state of the module-level expressions\<close>

text \<open>
  C1. The second analysis of the same workbook starts from the \<open>lastIndex\<close> values the
  first one left. For \<open>wbRef\<close> the first run reports the broken reference of A1 and the
  second run reports nothing.
\<close>

theorem second_run_differs:
  "fst (analyzeExcelFile rx0 wbRef None) =
     [\<lparr>row = 1, col = ''A'', type = ''REF'', value' = ''#REF!'', proposed = None, reason = None,
       sheet = Some ''S'', severity = Some critical\<rparr>]
   \<and> fst (analyzeExcelFile (snd (analyzeExcelFile rx0 wbRef None)) wbRef None) = []"
  by code_simp

text \<open>
  C2. In \<open>wbTwoRefs\<close> the cells A1 and B1 hold the same error text and neither has the
  native error tag. The \<open>test\<close> on A1 leaves \<open>lastIndex\<close> at 5, the \<open>test\<close> on B1 starts
  there and fails, and only A1 is reported.
\<close>

theorem second_error_text_missed:
  "fst (analyzeExcelFile rx0 wbTwoRefs None) =
     [\<lparr>row = 1, col = ''A'', type = ''REF'', value' = ''#REF!'', proposed = None, reason = None,
       sheet = Some ''S'', severity = Some critical\<rparr>]"
  by code_simp

text \<open>
  In every state, a broken-reference finding whose formula has no parenthesis group or
  fewer than three arguments in its first group gets no proposal.
\<close>

lemma rebuildLookup_few:
  assumes "case first_paren_group formula of None \<Rightarrow> True | Some g \<Rightarrow> length (split_comma g) < 3"
  shows "rebuildLookup formula rg = None"
  using assms by (auto simp: rebuildLookup_def Let_def split: option.splits)

lemma few_arguments_no_proposal:
  assumes "type err = ''REF''"
      and "case first_paren_group formula of None \<Rightarrow> True | Some g \<Rightarrow> length (split_comma g) < 3"
  shows "fst (proposeFixForError st err formula rg) = None"
proof -
  obtain b s1 where l: "lookupTest st (toUpperCase formula) = (b, s1)"
    by (cases "lookupTest st (toUpperCase formula)")
  from rebuildLookup_few [OF assms(2)] have r: "rebuildLookup formula rg = None" .
  from assms(1) l r show ?thesis
    by (simp add: proposeFixForError_def Let_def)
qed

text \<open>
  C7. The proposer called twice with the same broken-reference finding and the same
  lookup formula of three arguments rebuilds the lookup the first time and returns
  nothing the second time, because the \<open>test\<close> of \<open>VLOOKUP_REGEX\<close> starts at the
  \<open>lastIndex\<close> left by the first call. In \<open>wbLookup\<close> the finding of A1 gets the
  proposal and the finding of B1 gets none.
\<close>

theorem second_lookup_gets_no_proposal:
  "fst (proposeFixForError rx0 refError lookupFormula \<lparr>s_r = 0, s_c = 0, e_r = 0, e_c = 1\<rparr>) =
     Some (''=VLOOKUP(A2, A1:B1, 5, FALSE)'', refReason)
   \<and> fst (proposeFixForError
            (snd (proposeFixForError rx0 refError lookupFormula \<lparr>s_r = 0, s_c = 0, e_r = 0, e_c = 1\<rparr>))
            refError lookupFormula \<lparr>s_r = 0, s_c = 0, e_r = 0, e_c = 1\<rparr>) = None
   \<and> map type (fst (analyzeExcelFile rx0 wbLookup None)) = [''REF'', ''REF'']
   \<and> map proposed (fst (analyzeExcelFile rx0 wbLookup None)) =
       [Some ''=VLOOKUP(A2, A1:B1, 5, FALSE)'', None]"
  by code_simp

section \<open>The empty-gap detector\<close>

text \<open>
  C5. In \<open>wbGap\<close> the position A2 lies between the numbers of A1 and A3 and holds no
  cell. \<open>detectEmptyGaps\<close> itself reports the gap when it is called for A2, but the cell
  loop skips every position without a cell object before it reaches the detector, and
  the analysis reports nothing.
\<close>

theorem absent_cell_gap_not_reported:
  "cells wsGap (encode_cell 1 0) = None
   \<and> map_option type (detectEmptyGaps wsGap 1 0 (sheet_range wsGap) ''S'') = Some ''EMPTY_GAP''
   \<and> fst (analyzeExcelFile rx0 wbGap None) = []"
  by code_simp

end
